theory Spec2Isabelle
  imports Complex_Main
begin

text \<open>
  A shallow embedding of the certification dashboard's persistence layer
  (\<^verbatim>\<open>src/db/operations.ts\<close>, \<^verbatim>\<open>localDatabase.ts\<close>) and of its API gateway
  (\<^verbatim>\<open>netlify/functions/api.ts\<close>), with the properties of access control, audit
  logging, version retention, invoice operations and request handling proved about
  them. Logging to the console is left out throughout.
\<close>

section \<open>Schema (src/db/schema.ts)\<close>

text \<open>
  The interfaces of \<^verbatim>\<open>schema.ts\<close> become records, their string-literal unions
  become datatypes. Several interfaces share field names (\<^verbatim>\<open>id\<close>,
  \<^verbatim>\<open>partnerCode\<close>, \<^verbatim>\<open>status\<close>, ...): such a field is written with its
  record's name in front, \<open>Invoice.id\<close>, \<open>AdminUser.status\<close>; an argument
  whose name is also a field's carries a prime (\<open>userId'\<close>). An optional member
  \<^verbatim>\<open>f?: T\<close> is a \<open>T option\<close>, \<open>None\<close> when the member is left out or
  \<^verbatim>\<open>undefined\<close>.
\<close>

text \<open>
  What a member declared \<^verbatim>\<open>number\<close> can hold: a JavaScript number, finite or not,
  and \<^verbatim>\<open>null\<close>, which is what \<^verbatim>\<open>JSON.stringify\<close> writes for a number that is
  not finite and so what \<^verbatim>\<open>JSON.parse\<close> gives back for it.
\<close>

datatype number = Num real | NaN | Infinity | Minus_Infinity | Null

datatype Currency = HBAR | USDC | USD | EUR

datatype InvoiceStatus = Draft | Sent | Paid | Overdue | Void

record InvoiceLineItem =
  id :: string
  description :: string
  quantity :: number
  unitPrice :: number
  total :: number

text \<open>
  An invoice as the operations meet it at run time. \<^verbatim>\<open>Invoices.update\<close> spreads a
  \<^verbatim>\<open>Partial<Invoice>\<close> over a stored invoice, and a partial may carry a member with
  the value \<^verbatim>\<open>undefined\<close>, so any member of a stored invoice can be missing: every
  member is an option. An invoice that a caller passes under the type \<^verbatim>\<open>Invoice\<close>
  has all its members but, possibly, the last two.
\<close>

record Invoice =
  id :: "string option"
  invoiceNumber :: "string option"
  partnerCode :: "string option"
  billingPeriod :: "string option"
  issueDate :: "string option"
  dueDate :: "string option"
  currency :: "Currency option"
  items :: "InvoiceLineItem list option"
  subtotal :: "number option"
  taxRate :: "number option"
  taxAmount :: "number option"
  totalAmount :: "number option"
  status :: "InvoiceStatus option"
  "notes" :: "string option"
  publicMemo :: "string option"
  paidAt :: "string option"
  transactionReference :: "string option"

datatype AdminRole = Super_Admin_HQ | Regional_Admin_Cluster | Community_Admin_Local

datatype AdminStatus = Active | Invited | Disabled

record AdminUser =
  id :: string
  name :: string
  email :: string
  role :: AdminRole
  assignedCodes :: "string list"
  lastLogin :: string
  status :: AdminStatus

datatype AuditAction =
  CREATE | UPDATE | DELETE | VIEW | UPLOAD | EMAIL_SENT | INVOICE_CREATED | LOGIN

datatype AuditEntity =
  Entity_developer | Entity_invoice | Entity_event | Entity_agreement | Entity_campaign
| Entity_admin | Entity_registry

text \<open>
  \<^verbatim>\<open>createAuditLog\<close> takes \<^verbatim>\<open>Omit<AuditLogSchema, 'id' | 'timestamp'>\<close>: the
  fields without those two are a record of their own, and \<open>AuditLogSchema\<close> extends it.
\<close>

record AuditLogInput =
  userId :: string
  userEmail :: string
  action :: AuditAction
  entityType :: AuditEntity
  entityId :: "string option"
  details :: string
  partnerCode :: "string option"

record AuditLogSchema = AuditLogInput +
  id :: string
  timestamp :: string

datatype EventFormat = Online | In_Person

record CommunityEvent =
  id :: string
  title :: string
  objective :: string
  date :: string
  startTime :: "string option"
  endTime :: "string option"
  format :: EventFormat
  meetingLink :: "string option"
  location :: string
  partnerCode :: string
  facilitators :: "string list"
  invitedCount :: number
  rsvpedCount :: number
  checkedInCount :: number

datatype CampaignStatus = Campaign_Draft | Sending | Completed

record OutreachCampaign =
  id :: string
  name :: string
  audienceSize :: number
  sentCount :: nat
  status :: CampaignStatus
  sentAt :: string
  templateId :: string

text \<open>
  \<^verbatim>\<open>DatasetVersion\<close> is declared in \<^verbatim>\<open>types.ts\<close>; the operations read only the
  three fields below, everything else a version carries is the record's extension
  (the functions over versions are stated for \<open>'z DatasetVersion_scheme\<close>). The counts
  \<^verbatim>\<open>recordCount\<close> and \<^verbatim>\<open>sentCount\<close> are printed into audit details; they are
  taken to be natural numbers.
\<close>

record DatasetVersion =
  id :: string
  fileName :: string
  recordCount :: nat

section \<open>JSON (what \<^verbatim>\<open>JSON.parse (JSON.stringify v)\<close> is)\<close>

text \<open>
  \<^verbatim>\<open>localStorage\<close> holds text: a value is written as \<^verbatim>\<open>JSON.stringify\<close> prints
  it and read as \<^verbatim>\<open>JSON.parse\<close> reads that text. Strings, the string-literal
  unions, arrays and objects come back as they were. A number that is not finite is
  printed as \<^verbatim>\<open>null\<close>; a member whose value is \<^verbatim>\<open>undefined\<close> is not printed, and
  is missing afterwards, which is \<open>None\<close> before and after. So the round trip changes
  the members declared \<^verbatim>\<open>number\<close> and nothing else.
\<close>

fun JSON_number :: "number \<Rightarrow> number" where
  "JSON_number (Num r) = Num r"
| "JSON_number NaN = Null"
| "JSON_number Infinity = Null"
| "JSON_number Minus_Infinity = Null"
| "JSON_number Null = Null"

definition JSON_InvoiceLineItem :: "InvoiceLineItem \<Rightarrow> InvoiceLineItem" where
  "JSON_InvoiceLineItem l =
     l\<lparr>quantity := JSON_number (quantity l), unitPrice := JSON_number (unitPrice l),
       total := JSON_number (total l)\<rparr>"

definition JSON_Invoice :: "Invoice \<Rightarrow> Invoice" where
  "JSON_Invoice i =
     i\<lparr>Invoice.items := map_option (map JSON_InvoiceLineItem) (Invoice.items i),
       Invoice.subtotal := map_option JSON_number (Invoice.subtotal i),
       Invoice.taxRate := map_option JSON_number (Invoice.taxRate i),
       Invoice.taxAmount := map_option JSON_number (Invoice.taxAmount i),
       Invoice.totalAmount := map_option JSON_number (Invoice.totalAmount i)\<rparr>"

definition JSON_CommunityEvent :: "CommunityEvent \<Rightarrow> CommunityEvent" where
  "JSON_CommunityEvent e =
     e\<lparr>invitedCount := JSON_number (invitedCount e),
       rsvpedCount := JSON_number (rsvpedCount e),
       checkedInCount := JSON_number (checkedInCount e)\<rparr>"

definition JSON_OutreachCampaign :: "OutreachCampaign \<Rightarrow> OutreachCampaign" where
  "JSON_OutreachCampaign c = c\<lparr>audienceSize := JSON_number (audienceSize c)\<rparr>"

section \<open>Generic storage operations (src/db/operations.ts, lines 29-49)\<close>

text \<open>
  \<^verbatim>\<open>localStorage\<close> holds one JSON text per collection key. The model keeps, for
  each key, the value that the text parses to: \<open>None\<close> is an item for which
  \<^verbatim>\<open>loadFromStorage\<close> answers its fallback (no item, an empty one, or one
  \<^verbatim>\<open>JSON.parse\<close> rejects), \<open>Some xs\<close> an item whose text parses to \<open>xs\<close>. The record
  has the collections that the operations below read or write; agreements and the
  registry are saved and loaded the same way and are never audited.
\<close>

record 'z localStorage =
  hcp_versions :: "'z DatasetVersion_scheme list option"
  hcp_invoices :: "Invoice list option"
  hcp_events :: "CommunityEvent list option"
  hcp_campaigns :: "OutreachCampaign list option"
  hcp_admins :: "AdminUser list option"
  hcp_audit_logs :: "AuditLogSchema list option"

text \<open>
  \<^verbatim>\<open>localStorage.setItem\<close> raises when the medium refuses the write (quota exceeded,
  storage unavailable). Whether it does is a property of the browser: \<open>quota\<close>, a
  parameter of every writing operation, says which contents the medium accepts, and a
  write goes through iff the contents it would leave are accepted.
\<close>

datatype error = Error string

type_synonym 'z quota = "'z localStorage \<Rightarrow> bool"

text \<open>
  A call that may raise returns \<open>Inl\<close> the error or \<open>Inr\<close> its value, paired with the
  storage as the call left it (a write done before the raise stays done).
\<close>

type_synonym ('a, 'z) io = "(error + 'a) \<times> 'z localStorage"

datatype 'z item =
  VERSIONS "'z DatasetVersion_scheme list"
| INVOICES "Invoice list"
| EVENTS "CommunityEvent list"
| CAMPAIGNS "OutreachCampaign list"
| ADMINS "AdminUser list"
| AUDIT_LOGS "AuditLogSchema list"

fun COLLECTION_KEYS :: "'z item \<Rightarrow> string" where
  "COLLECTION_KEYS (VERSIONS _) = ''hcp_versions''"
| "COLLECTION_KEYS (INVOICES _) = ''hcp_invoices''"
| "COLLECTION_KEYS (EVENTS _) = ''hcp_events''"
| "COLLECTION_KEYS (CAMPAIGNS _) = ''hcp_campaigns''"
| "COLLECTION_KEYS (ADMINS _) = ''hcp_admins''"
| "COLLECTION_KEYS (AUDIT_LOGS _) = ''hcp_audit_logs''"

text \<open>
  The value that the text \<^verbatim>\<open>JSON.stringify(data)\<close> parses to. Admin users and audit
  entries have strings only. A dataset version is taken to come back as it was: its
  count is a natural number, and its further members, which \<^verbatim>\<open>types.ts\<close> declares,
  are not read by any operation here.
\<close>

fun JSON_roundtrip :: "'z item \<Rightarrow> 'z item" where
  "JSON_roundtrip (VERSIONS xs) = VERSIONS xs"
| "JSON_roundtrip (INVOICES xs) = INVOICES (map JSON_Invoice xs)"
| "JSON_roundtrip (EVENTS xs) = EVENTS (map JSON_CommunityEvent xs)"
| "JSON_roundtrip (CAMPAIGNS xs) = CAMPAIGNS (map JSON_OutreachCampaign xs)"
| "JSON_roundtrip (ADMINS xs) = ADMINS xs"
| "JSON_roundtrip (AUDIT_LOGS xs) = AUDIT_LOGS xs"

fun setItem :: "'z item \<Rightarrow> 'z localStorage \<Rightarrow> 'z localStorage" where
  "setItem (VERSIONS xs) st = st\<lparr>hcp_versions := Some xs\<rparr>"
| "setItem (INVOICES xs) st = st\<lparr>hcp_invoices := Some xs\<rparr>"
| "setItem (EVENTS xs) st = st\<lparr>hcp_events := Some xs\<rparr>"
| "setItem (CAMPAIGNS xs) st = st\<lparr>hcp_campaigns := Some xs\<rparr>"
| "setItem (ADMINS xs) st = st\<lparr>hcp_admins := Some xs\<rparr>"
| "setItem (AUDIT_LOGS xs) st = st\<lparr>hcp_audit_logs := Some xs\<rparr>"

text \<open>\<^verbatim>\<open>localStorage.setItem(key, JSON.stringify(data))\<close>, with its \<^verbatim>\<open>catch\<close>.\<close>

definition saveToStorage :: "'z quota \<Rightarrow> 'z item \<Rightarrow> 'z localStorage \<Rightarrow> (unit, 'z) io" where
  "saveToStorage quota data st =
     (if quota (setItem (JSON_roundtrip data) st)
      then (Inr (), setItem (JSON_roundtrip data) st)
      else (Inl (Error (''Storage quota exceeded or unavailable for '' @ COLLECTION_KEYS data)), st))"

text \<open>
  \<^verbatim>\<open>item ? JSON.parse(item) : fallback\<close>, with its \<^verbatim>\<open>catch\<close>: the stored item is
  already the value its text parses to.
\<close>

definition loadFromStorage :: "'a option \<Rightarrow> 'a \<Rightarrow> 'a" where
  "loadFromStorage item fallback = (case item of Some v \<Rightarrow> v | None \<Rightarrow> fallback)"

section \<open>Audit logging (src/db/operations.ts, lines 58-70)\<close>

text \<open>
  The id and the timestamp of an entry come from \<^verbatim>\<open>Date.now()\<close>,
  \<^verbatim>\<open>Math.random().toString(36).substr(2, 9)\<close> and \<^verbatim>\<open>new Date().toISOString()\<close>;
  what they return during one call is an argument of the call. A template literal
  prints a natural number below \<open>10 ^ 21\<close> in decimal; from there on JavaScript uses
  the exponent form, whose digits are left to the runtime (\<open>exponent_form\<close>).
\<close>

record runtime =
  Date_now :: nat
  Math_random_36 :: string
  toISOString :: string
  exponent_form :: "nat \<Rightarrow> string"

fun show_nat :: "nat \<Rightarrow> string" where
  "show_nat n =
     (if n < 10 then [''0123456789'' ! n]
      else show_nat (n div 10) @ [''0123456789'' ! (n mod 10)])"

declare show_nat.simps [simp del]

definition Number_toString :: "runtime \<Rightarrow> nat \<Rightarrow> string" where
  "Number_toString rt n = (if n < 10 ^ 21 then show_nat n else exponent_form rt n)"

definition newLog :: "AuditLogInput \<Rightarrow> runtime \<Rightarrow> AuditLogSchema" where
  "newLog entry rt =
     AuditLogInput.extend entry
       \<lparr>AuditLogSchema.id =
          ''audit_'' @ Number_toString rt (Date_now rt) @ ''_'' @ Math_random_36 rt,
        AuditLogSchema.timestamp = toISOString rt\<rparr>"

definition getAuditLogs_all :: "'z localStorage \<Rightarrow> AuditLogSchema list" where
  "getAuditLogs_all st = loadFromStorage (hcp_audit_logs st) []"

definition createAuditLog ::
  "'z quota \<Rightarrow> AuditLogInput \<Rightarrow> runtime \<Rightarrow> 'z localStorage \<Rightarrow> (unit, 'z) io" where
  "createAuditLog quota entry rt st =
     (let logs = loadFromStorage (hcp_audit_logs st) [];
          updatedLogs = take 1000 (newLog entry rt # logs)
      in saveToStorage quota (AUDIT_LOGS updatedLogs) st)"

text \<open>
  A run of \<^verbatim>\<open>createAuditLog\<close> calls, one per element, in order; a raise ends the run.
\<close>

fun createAuditLogs ::
  "'z quota \<Rightarrow> (AuditLogInput \<times> runtime) list \<Rightarrow> 'z localStorage \<Rightarrow> (unit, 'z) io" where
  "createAuditLogs quota [] st = (Inr (), st)"
| "createAuditLogs quota ((entry, rt) # rest) st =
     (case createAuditLog quota entry rt st of
        (Inl e, st') \<Rightarrow> (Inl e, st')
      | (Inr _, st') \<Rightarrow> createAuditLogs quota rest st')"

text \<open>
  A default parameter \<^verbatim>\<open>userId: string = 'system'\<close>: \<open>None\<close> is the omitted argument.
\<close>

definition default_userId :: "string option \<Rightarrow> string" where
  "default_userId u = (case u of None \<Rightarrow> ''system'' | Some v \<Rightarrow> v)"

section \<open>Dataset version operations (src/db/operations.ts, lines 113-172)\<close>

definition DatasetVersions_getAll :: "'z localStorage \<Rightarrow> 'z DatasetVersion_scheme list" where
  "DatasetVersions_getAll st = loadFromStorage (hcp_versions st) []"

definition DatasetVersions_getById ::
  "'z localStorage \<Rightarrow> string \<Rightarrow> 'z DatasetVersion_scheme option" where
  "DatasetVersions_getById st ident =
     find (\<lambda>v. DatasetVersion.id v = ident) (DatasetVersions_getAll st)"

text \<open>\<^verbatim>\<open>updated.pop()\<close> removes the last element of a non-empty array.\<close>

definition DatasetVersions_save ::
  "'z quota \<Rightarrow> 'z DatasetVersion_scheme \<Rightarrow> string option \<Rightarrow> runtime \<Rightarrow> 'z localStorage
     \<Rightarrow> (unit, 'z) io" where
  "DatasetVersions_save quota version userId' rt st =
     (let current = DatasetVersions_getAll st;
          updated = version # current;
          updated = (if length updated > 5 then butlast updated else updated)
      in case saveToStorage quota (VERSIONS updated) st of
           (Inl e, st') \<Rightarrow> (Inl e, st')
         | (Inr _, st') \<Rightarrow>
             createAuditLog quota
               \<lparr>userId = default_userId userId',
                userEmail = ''system'',
                action = UPLOAD,
                entityType = Entity_developer,
                entityId = Some (DatasetVersion.id version),
                details = ''Uploaded dataset: '' @ fileName version @ '' with ''
                            @ Number_toString rt (recordCount version) @ '' records'',
                AuditLogInput.partnerCode = None\<rparr> rt st')"

definition DatasetVersions_delete ::
  "'z quota \<Rightarrow> string \<Rightarrow> string option \<Rightarrow> runtime \<Rightarrow> 'z localStorage \<Rightarrow> (unit, 'z) io" where
  "DatasetVersions_delete quota ident userId' rt st =
     (let current = DatasetVersions_getAll st;
          version = find (\<lambda>v. DatasetVersion.id v = ident) current;
          updated = filter (\<lambda>v. DatasetVersion.id v \<noteq> ident) current
      in case saveToStorage quota (VERSIONS updated) st of
           (Inl e, st') \<Rightarrow> (Inl e, st')
         | (Inr _, st') \<Rightarrow>
             (case version of
                None \<Rightarrow> (Inr (), st')
              | Some v \<Rightarrow>
                  createAuditLog quota
                    \<lparr>userId = default_userId userId',
                     userEmail = ''system'',
                     action = DELETE,
                     entityType = Entity_developer,
                     entityId = Some ident,
                     details = ''Deleted dataset: '' @ fileName v,
                     AuditLogInput.partnerCode = None\<rparr> rt st'))"

section \<open>The older service (localDatabase.ts, lines 29-50)\<close>

text \<open>
  \<^verbatim>\<open>LocalDatabaseService.saveDatasetVersion\<close> catches the failed write itself and
  raises an alert instead: it returns the alert's text, if any, and the storage.
\<close>

definition getDatasetVersions :: "'z localStorage \<Rightarrow> 'z DatasetVersion_scheme list" where
  "getDatasetVersions st = (case hcp_versions st of Some data \<Rightarrow> data | None \<Rightarrow> [])"

definition saveDatasetVersion ::
  "'z quota \<Rightarrow> 'z DatasetVersion_scheme \<Rightarrow> 'z localStorage
     \<Rightarrow> string option \<times> 'z localStorage" where
  "saveDatasetVersion quota version st =
     (let current = getDatasetVersions st;
          updated = version # current;
          updated = (if length updated > 5 then butlast updated else updated)
      in if quota (setItem (JSON_roundtrip (VERSIONS updated)) st)
         then (None, setItem (JSON_roundtrip (VERSIONS updated)) st)
         else (Some ''Storage Quota Exceeded. Older versions were removed.'', st))"

section \<open>Invoice operations (src/db/operations.ts, lines 178-244)\<close>

definition Invoices_save :: "'z quota \<Rightarrow> Invoice list \<Rightarrow> 'z localStorage \<Rightarrow> (unit, 'z) io" where
  "Invoices_save quota invoices st = saveToStorage quota (INVOICES invoices) st"

text \<open>
  \<^verbatim>\<open>getAll(partnerCode?: string)\<close> tests \<^verbatim>\<open>if (partnerCode)\<close>: the omitted argument
  (\<open>None\<close>) and the empty string are both falsy. Under a truthy argument the filter
  \<^verbatim>\<open>i.partnerCode === partnerCode\<close> keeps the invoices that have this partner code.
\<close>

definition truthy_string :: "string option \<Rightarrow> bool" where
  "truthy_string s = (case s of None \<Rightarrow> False | Some v \<Rightarrow> v \<noteq> [])"

definition Invoices_getAll :: "'z localStorage \<Rightarrow> string option \<Rightarrow> Invoice list" where
  "Invoices_getAll st partnerCode' =
     (let invoices = loadFromStorage (hcp_invoices st) []
      in if truthy_string partnerCode'
         then filter (\<lambda>i. Invoice.partnerCode i = partnerCode') invoices
         else invoices)"

definition Invoices_getById :: "'z localStorage \<Rightarrow> string \<Rightarrow> Invoice option" where
  "Invoices_getById st ident =
     find (\<lambda>i. Invoice.id i = Some ident) (Invoices_getAll st None)"

text \<open>A string member inside a template literal; a missing one prints as its name.\<close>

definition template :: "string option \<Rightarrow> string" where
  "template m = (case m of None \<Rightarrow> ''undefined'' | Some s \<Rightarrow> s)"

definition Invoices_create ::
  "'z quota \<Rightarrow> Invoice \<Rightarrow> string option \<Rightarrow> runtime \<Rightarrow> 'z localStorage \<Rightarrow> (unit, 'z) io" where
  "Invoices_create quota invoice userId' rt st =
     (let invoices = Invoices_getAll st None;
          invoices = invoice # invoices
      in case Invoices_save quota invoices st of
           (Inl e, st') \<Rightarrow> (Inl e, st')
         | (Inr _, st') \<Rightarrow>
             createAuditLog quota
               \<lparr>userId = default_userId userId',
                userEmail = ''system'',
                action = INVOICE_CREATED,
                entityType = Entity_invoice,
                entityId = Invoice.id invoice,
                details = ''Created invoice '' @ template (Invoice.invoiceNumber invoice)
                            @ '' for '' @ template (Invoice.partnerCode invoice),
                AuditLogInput.partnerCode = Invoice.partnerCode invoice\<rparr> rt st')"

text \<open>
  \<^verbatim>\<open>Partial<Invoice>\<close>: a member may be left out (\<open>None\<close>), be there with the value
  \<^verbatim>\<open>undefined\<close> (\<open>Some None\<close>), or be there with a value (\<open>Some (Some v)\<close>). The
  spread \<^verbatim>\<open>{ ...invoices[index], ...updates }\<close> takes each member from \<open>updates\<close>
  when it is there, \<^verbatim>\<open>undefined\<close> included, and from the stored invoice otherwise.
\<close>

record InvoiceUpdates =
  id :: "string option option"
  invoiceNumber :: "string option option"
  partnerCode :: "string option option"
  billingPeriod :: "string option option"
  issueDate :: "string option option"
  dueDate :: "string option option"
  currency :: "Currency option option"
  items :: "InvoiceLineItem list option option"
  subtotal :: "number option option"
  taxRate :: "number option option"
  taxAmount :: "number option option"
  totalAmount :: "number option option"
  status :: "InvoiceStatus option option"
  "notes" :: "string option option"
  publicMemo :: "string option option"
  paidAt :: "string option option"
  transactionReference :: "string option option"

definition spread :: "'a \<Rightarrow> 'a option \<Rightarrow> 'a" where
  "spread old new = (case new of None \<Rightarrow> old | Some m \<Rightarrow> m)"

definition merge :: "Invoice \<Rightarrow> InvoiceUpdates \<Rightarrow> Invoice" where
  "merge i u =
     \<lparr>Invoice.id = spread (Invoice.id i) (InvoiceUpdates.id u),
      Invoice.invoiceNumber = spread (Invoice.invoiceNumber i) (InvoiceUpdates.invoiceNumber u),
      Invoice.partnerCode = spread (Invoice.partnerCode i) (InvoiceUpdates.partnerCode u),
      Invoice.billingPeriod = spread (Invoice.billingPeriod i) (InvoiceUpdates.billingPeriod u),
      Invoice.issueDate = spread (Invoice.issueDate i) (InvoiceUpdates.issueDate u),
      Invoice.dueDate = spread (Invoice.dueDate i) (InvoiceUpdates.dueDate u),
      Invoice.currency = spread (Invoice.currency i) (InvoiceUpdates.currency u),
      Invoice.items = spread (Invoice.items i) (InvoiceUpdates.items u),
      Invoice.subtotal = spread (Invoice.subtotal i) (InvoiceUpdates.subtotal u),
      Invoice.taxRate = spread (Invoice.taxRate i) (InvoiceUpdates.taxRate u),
      Invoice.taxAmount = spread (Invoice.taxAmount i) (InvoiceUpdates.taxAmount u),
      Invoice.totalAmount = spread (Invoice.totalAmount i) (InvoiceUpdates.totalAmount u),
      Invoice.status = spread (Invoice.status i) (InvoiceUpdates.status u),
      Invoice.notes = spread (Invoice.notes i) (InvoiceUpdates.notes u),
      Invoice.publicMemo = spread (Invoice.publicMemo i) (InvoiceUpdates.publicMemo u),
      Invoice.paidAt = spread (Invoice.paidAt i) (InvoiceUpdates.paidAt u),
      Invoice.transactionReference =
        spread (Invoice.transactionReference i) (InvoiceUpdates.transactionReference u)\<rparr>"

text \<open>\<^verbatim>\<open>Array.prototype.findIndex\<close>: the first index that passes, \<open>None\<close> for -1.\<close>

fun findIndex :: "('a \<Rightarrow> bool) \<Rightarrow> 'a list \<Rightarrow> nat option" where
  "findIndex P [] = None"
| "findIndex P (x # xs) =
     (if P x then Some 0 else (case findIndex P xs of None \<Rightarrow> None | Some k \<Rightarrow> Some (Suc k)))"

definition Invoices_update ::
  "'z quota \<Rightarrow> string \<Rightarrow> InvoiceUpdates \<Rightarrow> string option \<Rightarrow> runtime \<Rightarrow> 'z localStorage
     \<Rightarrow> (unit, 'z) io" where
  "Invoices_update quota ident updates userId' rt st =
     (let invoices = Invoices_getAll st None
      in case findIndex (\<lambda>i. Invoice.id i = Some ident) invoices of
           None \<Rightarrow> (Inr (), st)
         | Some index \<Rightarrow>
             (let invoices = invoices[index := merge (invoices ! index) updates]
              in case Invoices_save quota invoices st of
                   (Inl e, st') \<Rightarrow> (Inl e, st')
                 | (Inr _, st') \<Rightarrow>
                     createAuditLog quota
                       \<lparr>userId = default_userId userId',
                        userEmail = ''system'',
                        action = UPDATE,
                        entityType = Entity_invoice,
                        entityId = Some ident,
                        details = ''Updated invoice ''
                                    @ template (Invoice.invoiceNumber (invoices ! index)),
                        AuditLogInput.partnerCode =
                          Invoice.partnerCode (invoices ! index)\<rparr> rt st'))"

section \<open>Event and campaign operations (src/db/operations.ts, lines 281-356)\<close>

definition Events_getAll :: "'z localStorage \<Rightarrow> string option \<Rightarrow> CommunityEvent list" where
  "Events_getAll st partnerCode' =
     (let events = loadFromStorage (hcp_events st) []
      in if truthy_string partnerCode'
         then filter (\<lambda>e. Some (CommunityEvent.partnerCode e) = partnerCode') events
         else events)"

definition Events_create ::
  "'z quota \<Rightarrow> CommunityEvent \<Rightarrow> string option \<Rightarrow> runtime \<Rightarrow> 'z localStorage
     \<Rightarrow> (unit, 'z) io" where
  "Events_create quota event userId' rt st =
     (let events = Events_getAll st None;
          events = events @ [event]
      in case saveToStorage quota (EVENTS events) st of
           (Inl e, st') \<Rightarrow> (Inl e, st')
         | (Inr _, st') \<Rightarrow>
             createAuditLog quota
               \<lparr>userId = default_userId userId',
                userEmail = ''system'',
                action = CREATE,
                entityType = Entity_event,
                entityId = Some (CommunityEvent.id event),
                details = ''Created event: '' @ title event,
                AuditLogInput.partnerCode = Some (CommunityEvent.partnerCode event)\<rparr> rt st')"

definition Campaigns_getAll :: "'z localStorage \<Rightarrow> OutreachCampaign list" where
  "Campaigns_getAll st = loadFromStorage (hcp_campaigns st) []"

definition logCampaign ::
  "'z quota \<Rightarrow> OutreachCampaign \<Rightarrow> string option \<Rightarrow> runtime \<Rightarrow> 'z localStorage
     \<Rightarrow> (unit, 'z) io" where
  "logCampaign quota campaign userId' rt st =
     (let campaigns = Campaigns_getAll st;
          campaigns = campaign # campaigns
      in case saveToStorage quota (CAMPAIGNS campaigns) st of
           (Inl e, st') \<Rightarrow> (Inl e, st')
         | (Inr _, st') \<Rightarrow>
             createAuditLog quota
               \<lparr>userId = default_userId userId',
                userEmail = ''system'',
                action = EMAIL_SENT,
                entityType = Entity_campaign,
                entityId = Some (OutreachCampaign.id campaign),
                details = ''Sent campaign '' @ [CHR 0x22] @ OutreachCampaign.name campaign
                            @ [CHR 0x22] @ '' to ''
                            @ Number_toString rt (sentCount campaign) @ '' recipients'',
                AuditLogInput.partnerCode = None\<rparr> rt st')"

section \<open>Admin operations (src/db/operations.ts, lines 362-397)\<close>

text \<open>
  \<^verbatim>\<open>MOCK_ADMIN_TEAM\<close> is imported from \<^verbatim>\<open>constants.ts\<close>; it is a parameter here.
\<close>

definition Admins_getAll :: "AdminUser list \<Rightarrow> 'z localStorage \<Rightarrow> AdminUser list" where
  "Admins_getAll MOCK_ADMIN_TEAM st = loadFromStorage (hcp_admins st) MOCK_ADMIN_TEAM"

definition Admins_getById :: "AdminUser list \<Rightarrow> 'z localStorage \<Rightarrow> string \<Rightarrow> AdminUser option" where
  "Admins_getById MOCK_ADMIN_TEAM st ident =
     find (\<lambda>a. AdminUser.id a = ident) (Admins_getAll MOCK_ADMIN_TEAM st)"

definition hasAccess :: "AdminUser list \<Rightarrow> 'z localStorage \<Rightarrow> string \<Rightarrow> string \<Rightarrow> bool" where
  "hasAccess MOCK_ADMIN_TEAM st userId' partnerCode' =
     (case Admins_getById MOCK_ADMIN_TEAM st userId' of
        None \<Rightarrow> False
      | Some admin \<Rightarrow>
          if role admin = Super_Admin_HQ then True
          else partnerCode' \<in> set (assignedCodes admin))"

section \<open>API gateway (netlify/functions/api.ts)\<close>

text \<open>
  Values as \<^verbatim>\<open>JSON.parse\<close> returns them. An object is the list of its own properties
  in enumeration order, with distinct names.
\<close>

datatype json =
  JNull | JBool bool | JNum real | JStr string | JArr "json list" | JObj "(string \<times> json) list"

text \<open>
  The body of the event after \<^verbatim>\<open>JSON.parse(event.body || '{}')\<close>: \<open>Absent\<close> is a
  null or empty body (parsed as \<^verbatim>\<open>{}\<close>), \<open>Malformed\<close> a body the parser rejects.
\<close>

datatype request_body = Absent | Malformed | Json json

record HandlerEvent =
  headers :: "string \<Rightarrow> string option"
  httpMethod :: string
  queryStringParameters :: "(string \<Rightarrow> string option) option"
  body :: request_body

datatype response_body =
  error_body string | rows_body "json list" | row_body "json option"

record HandlerResponse =
  statusCode :: nat
  body :: response_body

text \<open>
  What the function reaches outside itself: the environment variable, the library call
  \<^verbatim>\<open>jwt.verify(token, secret)\<close> (true when it returns, false when it raises) and the
  database \<^verbatim>\<open>query(text, params)\<close> of \<^verbatim>\<open>db.ts\<close> (the rows, or \<open>None\<close> when the
  promise rejects). A call of the handler returns its response and the queries it sent.
\<close>

record platform =
  JWT_SECRET :: "string option"
  jwt_verify :: "string \<Rightarrow> string \<Rightarrow> bool"
  query :: "string \<Rightarrow> json list \<Rightarrow> json list option"

type_synonym sent = "(string \<times> json list) list"

definition entityTableMap :: "(string \<times> string) list" where
  "entityTableMap =
     [(''developers'', ''developers''), (''invoices'', ''invoices''), (''events'', ''events''),
      (''admins'', ''admins''), (''agreements'', ''agreements''), (''campaigns'', ''campaigns''),
      (''registry'', ''registry'')]"

definition word_chars :: string where
  "word_chars = ''abcdefghijklmnopqrstuvwxyzABCDEFGHIJKLMNOPQRSTUVWXYZ0123456789_''"

definition start_chars :: string where
  "start_chars = ''abcdefghijklmnopqrstuvwxyzABCDEFGHIJKLMNOPQRSTUVWXYZ_''"

text \<open>\<^verbatim>\<open>/^[a-zA-Z_][a-zA-Z0-9_]*$/.test(name)\<close>\<close>

definition isValidColumnName :: "string \<Rightarrow> bool" where
  "isValidColumnName name' =
     (case name' of
        [] \<Rightarrow> False
      | c # cs \<Rightarrow> c \<in> set start_chars \<and> list_all (\<lambda>d. d \<in> set word_chars) cs)"

text \<open>JavaScript truthiness of a parsed value.\<close>

fun truthy :: "json \<Rightarrow> bool" where
  "truthy JNull = False"
| "truthy (JBool b) = b"
| "truthy (JNum r) = (r \<noteq> 0)"
| "truthy (JStr s) = (s \<noteq> [])"
| "truthy (JArr _) = True"
| "truthy (JObj _) = True"

text \<open>
  Property read \<^verbatim>\<open>body.type\<close> on a parsed value that is not null; \<open>None\<close> is
  \<^verbatim>\<open>undefined\<close>, which is falsy.
\<close>

fun property_of :: "json \<Rightarrow> string \<Rightarrow> json option" where
  "property_of (JObj kvs) k = map_of kvs k"
| "property_of _ k = None"

fun join :: "string \<Rightarrow> string list \<Rightarrow> string" where
  "join sep [] = []"
| "join sep [x] = x"
| "join sep (x # y # ys) = x @ sep @ join sep (y # ys)"

text \<open>
  \<^verbatim>\<open>entityTableMap[type]\<close> first turns \<open>type\<close> into a property name (ECMAScript
  \<^verbatim>\<open>ToPropertyKey\<close>). A string is its own name; an array is the names of its
  elements joined by commas, null elements giving the empty string; an object is
  \<^verbatim>\<open>[object Object]\<close>, unless it has an own member \<^verbatim>\<open>toString\<close>: a parsed value
  is never callable, so \<^verbatim>\<open>OrdinaryToPrimitive\<close> skips it, gets the object itself
  back from \<^verbatim>\<open>Object.prototype.valueOf\<close>, and raises a \<^verbatim>\<open>TypeError\<close>.
  \<open>Numeric\<close> stands for a name that holds the decimal rendering of a number: such a
  name has a digit in it (or is \<^verbatim>\<open>Infinity\<close>) and names no property of
  \<^verbatim>\<open>entityTableMap\<close> or of \<^verbatim>\<open>Object.prototype\<close>.
\<close>

datatype converted = Raises | Numeric | Name string

definition array_join :: "converted list \<Rightarrow> converted" where
  "array_join rs =
     (if Raises \<in> set rs then Raises
      else if Numeric \<in> set rs then Numeric
      else Name (join '','' (map (\<lambda>r. case r of Name s \<Rightarrow> s | _ \<Rightarrow> []) rs)))"

fun property_name :: "json \<Rightarrow> converted" where
  "property_name JNull = Name ''null''"
| "property_name (JBool b) = Name (if b then ''true'' else ''false'')"
| "property_name (JNum r) = Numeric"
| "property_name (JStr s) = Name s"
| "property_name (JArr xs) =
     array_join (map (\<lambda>x. if x = JNull then Name [] else property_name x) xs)"
| "property_name (JObj kvs) =
     (if ''toString'' \<in> fst ` set kvs then Raises else Name ''[object Object]'')"

text \<open>
  A name \<^verbatim>\<open>entityTableMap\<close> does not hold itself is looked up in
  \<^verbatim>\<open>Object.prototype\<close>; what it finds there is truthy, and its text in a template
  literal is the one Node prints.
\<close>

definition Object_prototype :: "(string \<times> string) list" where
  "Object_prototype =
     [(''constructor'', ''function Object() { [native code] }''),
      (''__defineGetter__'', ''function __defineGetter__() { [native code] }''),
      (''__defineSetter__'', ''function __defineSetter__() { [native code] }''),
      (''hasOwnProperty'', ''function hasOwnProperty() { [native code] }''),
      (''__lookupGetter__'', ''function __lookupGetter__() { [native code] }''),
      (''__lookupSetter__'', ''function __lookupSetter__() { [native code] }''),
      (''isPrototypeOf'', ''function isPrototypeOf() { [native code] }''),
      (''propertyIsEnumerable'', ''function propertyIsEnumerable() { [native code] }''),
      (''toString'', ''function toString() { [native code] }''),
      (''valueOf'', ''function valueOf() { [native code] }''),
      (''__proto__'', ''[object Object]''),
      (''toLocaleString'', ''function toLocaleString() { [native code] }'')]"

text \<open>
  The read \<^verbatim>\<open>entityTableMap[type]\<close>: \<open>Inl\<close> when the conversion raises, otherwise
  the value found (\<open>None\<close> is \<^verbatim>\<open>undefined\<close>).
\<close>

definition entityTableMap_get :: "json \<Rightarrow> error + string option" where
  "entityTableMap_get type' =
     (case property_name type' of
        Raises \<Rightarrow> Inl (Error ''Cannot convert object to primitive value'')
      | Numeric \<Rightarrow> Inr None
      | Name k \<Rightarrow>
          (case map_of entityTableMap k of
             Some t \<Rightarrow> Inr (Some t)
           | None \<Rightarrow> Inr (map_of Object_prototype k)))"

text \<open>\<^verbatim>\<open>Object.keys\<close> and \<^verbatim>\<open>Object.values\<close> of a truthy value.\<close>

fun Object_keys :: "json \<Rightarrow> string list" where
  "Object_keys (JObj kvs) = map fst kvs"
| "Object_keys (JArr xs) = map show_nat [0..<length xs]"
| "Object_keys (JStr s) = map show_nat [0..<length s]"
| "Object_keys _ = []"

fun Object_values :: "json \<Rightarrow> json list" where
  "Object_values (JObj kvs) = map snd kvs"
| "Object_values (JArr xs) = xs"
| "Object_values (JStr s) = map (\<lambda>c. JStr [c]) s"
| "Object_values _ = []"

definition respond :: "nat \<Rightarrow> string \<Rightarrow> HandlerResponse" where
  "respond code msg = \<lparr>statusCode = code, HandlerResponse.body = error_body msg\<rparr>"

text \<open>The \<^verbatim>\<open>GET\<close> block, lines 51-105.\<close>

definition handle_GET :: "platform \<Rightarrow> HandlerEvent \<Rightarrow> HandlerResponse \<times> sent" where
  "handle_GET p ev =
     (let type' = (case queryStringParameters ev of None \<Rightarrow> None | Some q \<Rightarrow> q ''type'')
      in if \<not> truthy_string type' then (respond 400 ''Missing type parameter'', [])
         else
           (case (if type' = Some ''developers'' then Some ''developers''
                  else if type' = Some ''invoices'' then Some ''invoices''
                  else if type' = Some ''events'' then Some ''events''
                  else if type' = Some ''admins'' then Some ''admins''
                  else if type' = Some ''agreements'' then Some ''agreements''
                  else if type' = Some ''campaigns'' then Some ''campaigns''
                  else if type' = Some ''registry'' then Some ''registry''
                  else None) of
              None \<Rightarrow> (respond 400 ''Invalid type parameter'', [])
            | Some tableName \<Rightarrow>
                (case query p (''SELECT * FROM '' @ tableName) [] of
                   None \<Rightarrow>
                     (respond 500 ''Internal server error'', [(''SELECT * FROM '' @ tableName, [])])
                 | Some rows \<Rightarrow>
                     (\<lparr>statusCode = 200, HandlerResponse.body = rows_body rows\<rparr>,
                      [(''SELECT * FROM '' @ tableName, [])]))))"

text \<open>The \<^verbatim>\<open>POST\<close> block, lines 108-158.\<close>

definition handle_POST :: "platform \<Rightarrow> HandlerEvent \<Rightarrow> HandlerResponse \<times> sent" where
  "handle_POST p ev =
     (case (case HandlerEvent.body ev of
              Absent \<Rightarrow> Some (JObj []) | Malformed \<Rightarrow> None | Json j \<Rightarrow> Some j) of
        None \<Rightarrow> (respond 500 ''Internal server error'', [])
      | Some parsed \<Rightarrow>
          if parsed = JNull then (respond 500 ''Internal server error'', [])
          else
            (case (property_of parsed ''type'', property_of parsed ''data'') of
               (Some type', Some data) \<Rightarrow>
                 if \<not> truthy type' \<or> \<not> truthy data
                 then (respond 400 ''Missing type or data in request body'', [])
                 else
                   (case entityTableMap_get type' of
                      Inl _ \<Rightarrow> (respond 500 ''Internal server error'', [])
                    | Inr None \<Rightarrow> (respond 400 ''Invalid type parameter'', [])
                    | Inr (Some tableName) \<Rightarrow>
                        (let keys = Object_keys data
                         in if \<not> list_all isValidColumnName keys
                            then (respond 400 ''Invalid column name in data'', [])
                            else
                              (let values = Object_values data;
                                   columns = join '', '' keys;
                                   placeholders =
                                     join '', '' (map (\<lambda>index. ''$'' @ show_nat (index + 1))
                                                     [0..<length keys]);
                                   insertQuery = ''INSERT INTO '' @ tableName @ '' ('' @ columns
                                     @ '') VALUES ('' @ placeholders @ '') RETURNING *''
                               in case query p insertQuery values of
                                    None \<Rightarrow>
                                      (respond 500 ''Internal server error'',
                                       [(insertQuery, values)])
                                  | Some rows \<Rightarrow>
                                      (\<lparr>statusCode = 200,
                                        HandlerResponse.body =
                                          row_body (case rows of [] \<Rightarrow> None | r # _ \<Rightarrow> Some r)\<rparr>,
                                       [(insertQuery, values)]))))
             | _ \<Rightarrow> (respond 400 ''Missing type or data in request body'', [])))"

text \<open>What follows the token check, lines 50-163.\<close>

definition dispatch :: "platform \<Rightarrow> HandlerEvent \<Rightarrow> HandlerResponse \<times> sent" where
  "dispatch p ev =
     (if httpMethod ev = ''GET'' then handle_GET p ev
      else if httpMethod ev = ''POST'' then handle_POST p ev
      else (respond 405 ''Method not allowed'', []))"

text \<open>\<^verbatim>\<open>event.headers.authorization || event.headers.Authorization\<close>\<close>

definition authHeader :: "HandlerEvent \<Rightarrow> string option" where
  "authHeader ev =
     (if truthy_string (headers ev ''authorization'') then headers ev ''authorization''
      else headers ev ''Authorization'')"

definition handler :: "platform \<Rightarrow> HandlerEvent \<Rightarrow> HandlerResponse \<times> sent" where
  "handler p ev =
     (case authHeader ev of
        None \<Rightarrow> (respond 401 ''Unauthorized'', [])
      | Some h \<Rightarrow>
          if h = [] \<or> take 7 h \<noteq> ''Bearer '' then (respond 401 ''Unauthorized'', [])
          else
            (let token = drop 7 h
             in case JWT_SECRET p of
                  None \<Rightarrow> (respond 500 ''Internal server error'', [])
                | Some secret \<Rightarrow>
                    if secret = [] then (respond 500 ''Internal server error'', [])
                    else if \<not> jwt_verify p token secret
                         then (respond 401 ''Invalid token'', [])
                         else dispatch p ev))"

section \<open>Predicates of the specification\<close>

text \<open>Two admin records that differ in their \<^verbatim>\<open>status\<close> field at most.\<close>

definition same_but_status :: "AdminUser \<Rightarrow> AdminUser \<Rightarrow> bool" where
  "same_but_status a b = (b = a\<lparr>AdminUser.status := AdminUser.status b\<rparr>)"

text \<open>
  An invoice whose amounts are finite numbers: the four amounts of the invoice and
  the three of each line item. A missing amount has nothing that could fail to be
  finite.
\<close>

fun finite_number :: "number \<Rightarrow> bool" where
  "finite_number (Num r) = True"
| "finite_number _ = False"

definition finite_amount :: "number option \<Rightarrow> bool" where
  "finite_amount a = (case a of None \<Rightarrow> True | Some n \<Rightarrow> finite_number n)"

definition finite_amounts :: "Invoice \<Rightarrow> bool" where
  "finite_amounts i =
     (finite_amount (Invoice.subtotal i) \<and> finite_amount (Invoice.taxRate i) \<and>
      finite_amount (Invoice.taxAmount i) \<and> finite_amount (Invoice.totalAmount i) \<and>
      (case Invoice.items i of
         None \<Rightarrow> True
       | Some ls \<Rightarrow>
           list_all (\<lambda>l. finite_number (quantity l) \<and> finite_number (unitPrice l) \<and>
                          finite_number (total l)) ls))"

text \<open>A request that has passed the token check of the handler.\<close>

definition authenticated :: "platform \<Rightarrow> HandlerEvent \<Rightarrow> bool" where
  "authenticated p ev =
     (case (authHeader ev, JWT_SECRET p) of
        (Some h, Some secret) \<Rightarrow>
          take 7 h = ''Bearer '' \<and> secret \<noteq> [] \<and> jwt_verify p (drop 7 h) secret
      | _ \<Rightarrow> False)"

section \<open>Example data\<close>

definition admin_hq :: AdminUser where
  "admin_hq = \<lparr>AdminUser.id = ''a1'', AdminUser.name = ''Hana'', email = ''hana@hq.example'',
     role = Super_Admin_HQ, assignedCodes = [], lastLogin = ''2024-10-01'',
     AdminUser.status = Active\<rparr>"

definition admin_local :: AdminUser where
  "admin_local = \<lparr>AdminUser.id = ''a2'', AdminUser.name = ''Luc'', email = ''luc@p1.example'',
     role = Community_Admin_Local, assignedCodes = [''P1'', ''P7''], lastLogin = ''2024-10-02'',
     AdminUser.status = Disabled\<rparr>"

definition empty_storage :: "unit localStorage" where
  "empty_storage = \<lparr>hcp_versions = None, hcp_invoices = None, hcp_events = None,
     hcp_campaigns = None, hcp_admins = None, hcp_audit_logs = None\<rparr>"

definition quota_all :: "unit quota" where
  "quota_all st = True"

definition rt0 :: runtime where
  "rt0 = \<lparr>Date_now = 1730000000000, Math_random_36 = ''k3j9x0q2z'',
     toISOString = ''2024-10-27T03:33:20.000Z'', exponent_form = (\<lambda>n. ''1e+21'')\<rparr>"

definition rt1 :: runtime where
  "rt1 = \<lparr>Date_now = 1730000000500, Math_random_36 = ''b7m1c4d8e'',
     toISOString = ''2024-10-27T03:33:20.500Z'', exponent_form = (\<lambda>n. ''1e+21'')\<rparr>"

definition login_entry :: AuditLogInput where
  "login_entry = \<lparr>userId = ''a1'', userEmail = ''hana@hq.example'', action = LOGIN,
     entityType = Entity_admin, entityId = None, details = ''Signed in'',
     AuditLogInput.partnerCode = None\<rparr>"

definition view_entry :: AuditLogInput where
  "view_entry = \<lparr>userId = ''a2'', userEmail = ''luc@p1.example'', action = VIEW,
     entityType = Entity_invoice, entityId = Some ''i1'', details = ''Opened invoice'',
     AuditLogInput.partnerCode = Some ''P1''\<rparr>"

definition v1 :: DatasetVersion where
  "v1 = \<lparr>DatasetVersion.id = ''v1'', fileName = ''devs-1.csv'', recordCount = 120\<rparr>"

definition v2 :: DatasetVersion where
  "v2 = \<lparr>DatasetVersion.id = ''v2'', fileName = ''devs-2.csv'', recordCount = 240\<rparr>"

definition v3 :: DatasetVersion where
  "v3 = \<lparr>DatasetVersion.id = ''v3'', fileName = ''devs-3.csv'', recordCount = 360\<rparr>"

definition v4 :: DatasetVersion where
  "v4 = \<lparr>DatasetVersion.id = ''v4'', fileName = ''devs-4.csv'', recordCount = 480\<rparr>"

definition v5 :: DatasetVersion where
  "v5 = \<lparr>DatasetVersion.id = ''v5'', fileName = ''devs-5.csv'', recordCount = 600\<rparr>"

definition v6 :: DatasetVersion where
  "v6 = \<lparr>DatasetVersion.id = ''v6'', fileName = ''devs-6.csv'', recordCount = 720\<rparr>"

definition five_versions :: "unit localStorage" where
  "five_versions = empty_storage\<lparr>hcp_versions := Some [v5, v4, v3, v2, v1]\<rparr>"

definition item0 :: InvoiceLineItem where
  "item0 = \<lparr>InvoiceLineItem.id = ''l1'', description = ''Certifications'',
     quantity = Num 4, unitPrice = Num 25, total = Num 100\<rparr>"

definition inv0 :: Invoice where
  "inv0 = \<lparr>Invoice.id = Some ''i1'', Invoice.invoiceNumber = Some ''INV-2024-001'',
     Invoice.partnerCode = Some ''P1'', Invoice.billingPeriod = Some ''2024-10'',
     Invoice.issueDate = Some ''2024-10-27'', Invoice.dueDate = Some ''2024-11-26'',
     Invoice.currency = Some USD, Invoice.items = Some [item0],
     Invoice.subtotal = Some (Num 100), Invoice.taxRate = Some (Num 0),
     Invoice.taxAmount = Some (Num 0), Invoice.totalAmount = Some (Num 100),
     Invoice.status = Some Draft, Invoice.notes = Some [], Invoice.publicMemo = Some [],
     Invoice.paidAt = None, Invoice.transactionReference = None\<rparr>"

definition inv1 :: Invoice where
  "inv1 = \<lparr>Invoice.id = Some ''i2'', Invoice.invoiceNumber = Some ''INV-2024-002'',
     Invoice.partnerCode = Some ''P2'', Invoice.billingPeriod = Some ''2024-09'',
     Invoice.issueDate = Some ''2024-09-30'', Invoice.dueDate = Some ''2024-10-30'',
     Invoice.currency = Some HBAR, Invoice.items = Some [],
     Invoice.subtotal = Some (Num 250), Invoice.taxRate = Some (Num 20),
     Invoice.taxAmount = Some (Num 50), Invoice.totalAmount = Some (Num 300),
     Invoice.status = Some Sent, Invoice.notes = Some ''second reminder'',
     Invoice.publicMemo = Some ''Thank you'', Invoice.paidAt = Some ''2024-10-01'',
     Invoice.transactionReference = Some ''0xabc''\<rparr>"

definition inv2 :: Invoice where
  "inv2 = inv0\<lparr>Invoice.id := Some ''i3'', Invoice.invoiceNumber := Some ''INV-2024-003'',
     Invoice.status := Some Overdue\<rparr>"

text \<open>An invoice with a tax rate that is not a number and an infinite total.\<close>

definition inv_nan :: Invoice where
  "inv_nan = inv0\<lparr>Invoice.id := Some ''i4'', Invoice.taxRate := Some NaN,
     Invoice.totalAmount := Some Infinity\<rparr>"

definition no_updates :: InvoiceUpdates where
  "no_updates = \<lparr>InvoiceUpdates.id = None, invoiceNumber = None, partnerCode = None,
     billingPeriod = None, issueDate = None, dueDate = None, currency = None, items = None,
     subtotal = None, taxRate = None, taxAmount = None, totalAmount = None, status = None,
     notes = None, publicMemo = None, paidAt = None, transactionReference = None\<rparr>"

text \<open>
  Updates that set the status and the transaction reference, carry \<^verbatim>\<open>notes\<close> with
  the value \<^verbatim>\<open>undefined\<close> and a tax rate that is not a number, and leave every other
  member out, \<^verbatim>\<open>paidAt\<close> among them.
\<close>

definition settle :: InvoiceUpdates where
  "settle = no_updates\<lparr>status := Some (Some Paid), notes := Some None,
     taxRate := Some (Some NaN), transactionReference := Some (Some ''0xdef'')\<rparr>"

text \<open>A medium with room for one stored invoice or audit entry in all.\<close>

definition quota_one :: "unit quota" where
  "quota_one st =
     (length (loadFromStorage (hcp_invoices st) []) + length (getAuditLogs_all st) \<le> 1)"

definition three_invoices :: "unit localStorage" where
  "three_invoices = empty_storage\<lparr>hcp_invoices := Some [inv0, inv1, inv2]\<rparr>"

definition event0 :: CommunityEvent where
  "event0 = \<lparr>CommunityEvent.id = ''e1'', title = ''Hedera 101'', objective = ''Onboarding'',
     date = ''2024-11-05'', startTime = Some ''18:00'', endTime = None, format = Online,
     meetingLink = None, location = ''Online'', CommunityEvent.partnerCode = ''P1'',
     facilitators = [''Luc''], invitedCount = Num 40, rsvpedCount = Num 12,
     checkedInCount = Num 0\<rparr>"

definition campaign0 :: OutreachCampaign where
  "campaign0 = \<lparr>OutreachCampaign.id = ''c1'', OutreachCampaign.name = ''Reminder'',
     audienceSize = Num 40, sentCount = 38, OutreachCampaign.status = Completed,
     sentAt = ''2024-10-30'', templateId = ''t2''\<rparr>"

text \<open>A medium that takes any write except one that leaves an audit entry.\<close>

definition quota_no_audit :: "unit quota" where
  "quota_no_audit st = (getAuditLogs_all st = [])"

text \<open>
  A medium that takes any write except one that leaves an audit entry of an invoice
  creation.
\<close>

definition quota_no_invoice_audit :: "unit quota" where
  "quota_no_invoice_audit st = list_all (\<lambda>l. action l \<noteq> INVOICE_CREATED) (getAuditLogs_all st)"

definition platform0 :: platform where
  "platform0 = \<lparr>JWT_SECRET = Some ''s3cret'',
     jwt_verify = (\<lambda>token secret. token = ''good.token'' \<and> secret = ''s3cret''),
     query = (\<lambda>text params. Some [JObj [(''id'', JStr ''i1'')]])\<rparr>"

definition request0 :: HandlerEvent where
  "request0 = \<lparr>headers = [''authorization'' \<mapsto> ''Bearer good.token''],
     httpMethod = ''POST'', queryStringParameters = Some [''type'' \<mapsto> ''invoices''],
     HandlerEvent.body = Json (JObj [(''type'', JStr ''invoices''),
       (''data'', JObj [(''id'', JStr ''i1''), (''partnerCode'', JStr ''P1'')])])\<rparr>"

definition bad_col_request :: HandlerEvent where
  "bad_col_request = request0\<lparr>HandlerEvent.body :=
     Json (JObj [(''type'', JStr ''invoices''),
       (''data'', JObj [(''id'', JStr ''i1''), (''bad col'', JStr ''x'')])])\<rparr>"

definition odd_type_request :: HandlerEvent where
  "odd_type_request = request0\<lparr>HandlerEvent.body :=
     Json (JObj [(''type'', JObj [(''toString'', JNum 0)]),
       (''data'', JObj [(''bad col'', JStr ''x'')])])\<rparr>"



section \<open>Access control\<close>

lemma Admins_getById_None:
  "(Admins_getById M st u = None) = (\<forall>a \<in> set (Admins_getAll M st). AdminUser.id a \<noteq> u)"
  by (auto simp: Admins_getById_def find_None_iff)

lemma Admins_getById_Some:
  "Admins_getById M st u = Some a \<Longrightarrow> a \<in> set (Admins_getAll M st) \<and> AdminUser.id a = u"
  by (auto simp: Admins_getById_def find_Some_iff)

text \<open>
  C2. \<open>hasAccess\<close> answers false when no admin of the roster has the actor's id; when
  the lookup finds the actor's record it answers true for every partner code if the
  role is Super Admin (HQ), and otherwise true exactly for the partner codes of the
  record's \<open>assignedCodes\<close>.
\<close>

theorem hasAccess_spec:
  "((\<forall>a \<in> set (Admins_getAll M st). AdminUser.id a \<noteq> u) \<longrightarrow> \<not> hasAccess M st u pc) \<and>
   (Admins_getById M st u = Some a \<and> role a = Super_Admin_HQ \<longrightarrow> hasAccess M st u pc) \<and>
   (Admins_getById M st u = Some a \<and> role a \<noteq> Super_Admin_HQ \<longrightarrow>
      hasAccess M st u pc = (pc \<in> set (assignedCodes a)))"
  using Admins_getById_None [of M st u] by (auto simp: hasAccess_def)

theorem hasAccess_spec_witness:
  "\<not> hasAccess [admin_hq, admin_local] empty_storage ''zz'' ''P1'' \<and>
   hasAccess [admin_hq, admin_local] empty_storage ''a1'' ''P9'' \<and>
   hasAccess [admin_hq, admin_local] empty_storage ''a2'' ''P7'' \<and>
   \<not> hasAccess [admin_hq, admin_local] empty_storage ''a2'' ''P9''"
proof -
  have all: "Admins_getAll [admin_hq, admin_local] empty_storage = [admin_hq, admin_local]"
    by (simp add: Admins_getAll_def loadFromStorage_def empty_storage_def)
  have g1: "Admins_getById [admin_hq, admin_local] empty_storage ''a1'' = Some admin_hq"
    unfolding Admins_getById_def all by (simp add: admin_hq_def)
  have g2: "Admins_getById [admin_hq, admin_local] empty_storage ''a2'' = Some admin_local"
    unfolding Admins_getById_def all by (simp add: admin_hq_def admin_local_def)
  show ?thesis
    using hasAccess_spec [of "[admin_hq, admin_local]" empty_storage "''zz''" "''P1''" admin_hq]
      hasAccess_spec [of "[admin_hq, admin_local]" empty_storage "''a1''" "''P9''" admin_hq]
      hasAccess_spec [of "[admin_hq, admin_local]" empty_storage "''a2''" "''P7''" admin_local]
      hasAccess_spec [of "[admin_hq, admin_local]" empty_storage "''a2''" "''P9''" admin_local]
    by (simp add: all g1 g2) (simp add: admin_hq_def admin_local_def)
qed

lemma same_but_status_fields:
  "same_but_status a b \<Longrightarrow>
     AdminUser.id b = AdminUser.id a \<and> role b = role a \<and> assignedCodes b = assignedCodes a"
  by (cases a, cases b) (simp add: same_but_status_def)

lemma find_same_but_status:
  "list_all2 same_but_status xs ys \<Longrightarrow>
     rel_option same_but_status (find (\<lambda>a. AdminUser.id a = u) xs) (find (\<lambda>a. AdminUser.id a = u) ys)"
proof (induction rule: list_all2_induct)
  case Nil
  then show ?case by simp
next
  case (Cons x xs y ys)
  then show ?case using same_but_status_fields [of x y] by auto
qed

text \<open>
  C10. \<open>hasAccess\<close> does not read the \<^verbatim>\<open>status\<close> field: on two rosters equal
  up to the status of their records it answers the same for every actor and partner
  code; a Disabled admin has exactly the access of its role and assigned codes.
\<close>

theorem hasAccess_ignores_status:
  "(list_all2 same_but_status (Admins_getAll M st) (Admins_getAll M' st') \<longrightarrow>
      hasAccess M st u pc = hasAccess M' st' u pc) \<and>
   (Admins_getById M st u = Some a \<and> AdminUser.status a = Disabled \<longrightarrow>
      hasAccess M st u pc = (role a = Super_Admin_HQ \<or> pc \<in> set (assignedCodes a)))"
proof (intro conjI impI)
  assume "list_all2 same_but_status (Admins_getAll M st) (Admins_getAll M' st')"
  from find_same_but_status [OF this, of u]
  have "rel_option same_but_status (Admins_getById M st u) (Admins_getById M' st' u)"
    by (simp add: Admins_getById_def)
  then show "hasAccess M st u pc = hasAccess M' st' u pc"
    by (cases rule: option.rel_cases) (auto simp: hasAccess_def dest: same_but_status_fields)
next
  assume "Admins_getById M st u = Some a \<and> AdminUser.status a = Disabled"
  then show "hasAccess M st u pc = (role a = Super_Admin_HQ \<or> pc \<in> set (assignedCodes a))"
    by (simp add: hasAccess_def)
qed

theorem hasAccess_ignores_status_witness:
  "hasAccess [] (empty_storage\<lparr>hcp_admins := Some [admin_hq, admin_local]\<rparr>) ''a2'' ''P1''
     = hasAccess [] (empty_storage\<lparr>hcp_admins :=
         Some [admin_hq, admin_local\<lparr>AdminUser.status := Active\<rparr>]\<rparr>) ''a2'' ''P1'' \<and>
   hasAccess [] (empty_storage\<lparr>hcp_admins := Some [admin_hq, admin_local]\<rparr>) ''a2'' ''P1''"
proof -
  let ?s = "empty_storage\<lparr>hcp_admins := Some [admin_hq, admin_local]\<rparr>"
  let ?t = "empty_storage\<lparr>hcp_admins := Some [admin_hq, admin_local\<lparr>AdminUser.status := Active\<rparr>]\<rparr>"
  have rel: "list_all2 same_but_status (Admins_getAll [] ?s) (Admins_getAll [] ?t)"
    by (simp add: Admins_getAll_def loadFromStorage_def same_but_status_def admin_hq_def
        admin_local_def)
  have g: "Admins_getById [] ?s ''a2'' = Some admin_local \<and> AdminUser.status admin_local = Disabled"
    by (simp add: Admins_getById_def Admins_getAll_def loadFromStorage_def admin_hq_def
        admin_local_def)
  have codes: "''P1'' \<in> set (assignedCodes admin_local)"
    by (simp add: admin_local_def)
  from hasAccess_ignores_status [of "[]" ?s "[]" ?t "''a2''" "''P1''" admin_local] rel g codes
  show ?thesis by blast
qed

section \<open>Repository operations\<close>

lemma createAuditLog_eq:
  "createAuditLog quota e rt st =
     (if quota (st\<lparr>hcp_audit_logs := Some (take 1000 (newLog e rt # getAuditLogs_all st))\<rparr>)
      then (Inr (), st\<lparr>hcp_audit_logs := Some (take 1000 (newLog e rt # getAuditLogs_all st))\<rparr>)
      else (Inl (Error ''Storage quota exceeded or unavailable for hcp_audit_logs''), st))"
  by (simp add: createAuditLog_def saveToStorage_def getAuditLogs_all_def Let_def)

lemma take_append_take: "take n (xs @ take n ys) = take n (xs @ ys)"
  by (simp add: min_def)

lemma getAuditLogs_all_update [simp]:
  "getAuditLogs_all (st\<lparr>hcp_audit_logs := Some xs\<rparr>) = xs"
  by (simp add: getAuditLogs_all_def loadFromStorage_def)

lemma createAuditLogs_bounded:
  "length (getAuditLogs_all st) \<le> 1000 \<Longrightarrow>
     length (getAuditLogs_all (snd (createAuditLogs quota es st))) \<le> 1000"
proof (induction es arbitrary: st)
  case Nil
  then show ?case by simp
next
  case (Cons p es)
  obtain e rt where p: "p = (e, rt)" by (cases p)
  show ?case
  proof (cases "quota (st\<lparr>hcp_audit_logs := Some (take 1000 (newLog e rt # getAuditLogs_all st))\<rparr>)")
    case True
    then show ?thesis using Cons.IH [of "st\<lparr>hcp_audit_logs := Some (take 1000 (newLog e rt # getAuditLogs_all st))\<rparr>"]
      by (simp add: p createAuditLog_eq)
  next
    case False
    then show ?thesis using Cons.prems by (simp add: p createAuditLog_eq)
  qed
qed

lemma createAuditLogs_logs:
  "length (getAuditLogs_all st) \<le> 1000 \<Longrightarrow> createAuditLogs quota es st = (Inr (), st') \<Longrightarrow>
     getAuditLogs_all st' =
       take 1000 (rev (map (\<lambda>(e, rt). newLog e rt) es) @ getAuditLogs_all st)"
proof (induction es arbitrary: st)
  case Nil
  then show ?case by simp
next
  case (Cons p es)
  obtain e rt where p: "p = (e, rt)" by (cases p)
  let ?s = "st\<lparr>hcp_audit_logs := Some (take 1000 (newLog e rt # getAuditLogs_all st))\<rparr>"
  from Cons.prems have run: "createAuditLogs quota es ?s = (Inr (), st')"
    by (simp add: p createAuditLog_eq split: if_splits)
  have "length (getAuditLogs_all ?s) \<le> 1000" by simp
  from Cons.IH [OF this run] show ?case
    using take_append_take [of 1000 "rev (map (\<lambda>(e, rt). newLog e rt) es)" "newLog e rt # getAuditLogs_all st"]
    by (simp add: p)
qed

text \<open>
  C4. Starting from a log of at most 1000 entries, a run of \<^verbatim>\<open>createAuditLog\<close> calls
  never leaves more than 1000 entries, whatever the medium accepts. When the run
  completes, the log is the new entries, most recent first, followed by the old ones,
  cut to 1000; after 1000 or more entries it is exactly the 1000 most recent of them.
\<close>

theorem audit_log_capped:
  assumes "length (getAuditLogs_all st) \<le> 1000"
  shows "length (getAuditLogs_all (snd (createAuditLogs quota es st))) \<le> 1000 \<and>
    (createAuditLogs quota es st = (Inr (), st') \<longrightarrow>
       getAuditLogs_all st' =
         take 1000 (rev (map (\<lambda>(e, rt). newLog e rt) es) @ getAuditLogs_all st) \<and>
       (1000 \<le> length es \<longrightarrow>
          getAuditLogs_all st' = take 1000 (rev (map (\<lambda>(e, rt). newLog e rt) es)) \<and>
          length (getAuditLogs_all st') = 1000))"
  using createAuditLogs_bounded [OF assms, of quota es] createAuditLogs_logs [OF assms, of quota es st']
  by simp

lemma createAuditLogs_quota_all: "fst (createAuditLogs quota_all es st) = Inr ()"
  by (induction es arbitrary: st) (auto simp: createAuditLog_eq quota_all_def)

theorem audit_log_capped_witness:
  "length (getAuditLogs_all empty_storage) \<le> 1000 \<and>
   createAuditLogs quota_all [(login_entry, rt0), (view_entry, rt1)] empty_storage =
     (Inr (), empty_storage\<lparr>hcp_audit_logs := Some [newLog view_entry rt1, newLog login_entry rt0]\<rparr>) \<and>
   getAuditLogs_all (empty_storage\<lparr>hcp_audit_logs := Some [newLog view_entry rt1, newLog login_entry rt0]\<rparr>) =
     take 1000 [newLog view_entry rt1, newLog login_entry rt0] \<and>
   fst (createAuditLogs quota_all (replicate 1000 (login_entry, rt0) @ [(view_entry, rt1)])
          empty_storage) = Inr () \<and>
   getAuditLogs_all (snd (createAuditLogs quota_all
       (replicate 1000 (login_entry, rt0) @ [(view_entry, rt1)]) empty_storage)) =
     newLog view_entry rt1 # replicate 999 (newLog login_entry rt0) \<and>
   length (getAuditLogs_all (snd (createAuditLogs quota_all
       (replicate 1000 (login_entry, rt0) @ [(view_entry, rt1)]) empty_storage))) = 1000"
proof -
  have start: "length (getAuditLogs_all empty_storage) \<le> 1000"
    by (simp add: getAuditLogs_all_def loadFromStorage_def empty_storage_def)
  have e0: "getAuditLogs_all empty_storage = []"
    by (simp add: getAuditLogs_all_def loadFromStorage_def empty_storage_def)
  have run: "createAuditLogs quota_all [(login_entry, rt0), (view_entry, rt1)] empty_storage =
     (Inr (), empty_storage\<lparr>hcp_audit_logs := Some [newLog view_entry rt1, newLog login_entry rt0]\<rparr>)"
    by (simp add: createAuditLog_eq quota_all_def e0)
  let ?es = "replicate 1000 (login_entry, rt0) @ [(view_entry, rt1)]"
  have long: "createAuditLogs quota_all ?es empty_storage =
      (Inr (), snd (createAuditLogs quota_all ?es empty_storage))"
    using createAuditLogs_quota_all [of ?es empty_storage]
    by (cases "createAuditLogs quota_all ?es empty_storage") simp
  have len: "1000 \<le> length ?es" by simp
  have cut: "take 1000 (rev (map (\<lambda>(e, rt). newLog e rt) ?es)) =
      newLog view_entry rt1 # replicate 999 (newLog login_entry rt0)"
    by simp
  from audit_log_capped [OF start, of quota_all "[(login_entry, rt0), (view_entry, rt1)]"
      "empty_storage\<lparr>hcp_audit_logs := Some [newLog view_entry rt1, newLog login_entry rt0]\<rparr>"]
    run start
  have small: "getAuditLogs_all (empty_storage\<lparr>hcp_audit_logs :=
        Some [newLog view_entry rt1, newLog login_entry rt0]\<rparr>) =
      take 1000 [newLog view_entry rt1, newLog login_entry rt0]"
    by (simp add: e0)
  from audit_log_capped [OF start, of quota_all ?es "snd (createAuditLogs quota_all ?es empty_storage)"]
    long len
  have big: "getAuditLogs_all (snd (createAuditLogs quota_all ?es empty_storage)) =
      take 1000 (rev (map (\<lambda>(e, rt). newLog e rt) ?es)) \<and>
      length (getAuditLogs_all (snd (createAuditLogs quota_all ?es empty_storage))) = 1000"
    by blast
  from start run small big createAuditLogs_quota_all [of ?es empty_storage] show ?thesis
    unfolding cut by blast
qed

lemma DatasetVersions_getAll_update [simp]:
  "DatasetVersions_getAll (st\<lparr>hcp_versions := Some xs\<rparr>) = xs"
  "DatasetVersions_getAll (st\<lparr>hcp_audit_logs := l\<rparr>) = DatasetVersions_getAll st"
  by (simp_all add: DatasetVersions_getAll_def loadFromStorage_def)

lemma getDatasetVersions_eq: "getDatasetVersions st = DatasetVersions_getAll st"
  by (simp add: getDatasetVersions_def DatasetVersions_getAll_def loadFromStorage_def)

lemma DatasetVersions_save_versions:
  "DatasetVersions_getAll (snd (DatasetVersions_save quota v u rt st)) =
     (if quota (st\<lparr>hcp_versions := Some (if length (DatasetVersions_getAll st) < 5
                  then v # DatasetVersions_getAll st else butlast (v # DatasetVersions_getAll st))\<rparr>)
      then (if length (DatasetVersions_getAll st) < 5
            then v # DatasetVersions_getAll st else butlast (v # DatasetVersions_getAll st))
      else DatasetVersions_getAll st)"
  by (simp add: DatasetVersions_save_def saveToStorage_def createAuditLog_eq Let_def not_less
      del: butlast.simps)

lemma DatasetVersions_save_Inr:
  "fst (DatasetVersions_save quota v u rt st) = Inr () \<Longrightarrow>
     quota (st\<lparr>hcp_versions := Some (if length (DatasetVersions_getAll st) < 5
                  then v # DatasetVersions_getAll st else butlast (v # DatasetVersions_getAll st))\<rparr>)"
  by (simp add: DatasetVersions_save_def saveToStorage_def Let_def not_less
      split: if_splits del: butlast.simps)

text \<open>
  C5. On a store of at most five versions, \<^verbatim>\<open>DatasetVersions.save\<close> and the older
  \<^verbatim>\<open>LocalDatabaseService.saveDatasetVersion\<close> leave at most five; a save that
  returns normally has put the new version in front and, if the store was full, has
  dropped exactly the last (oldest) one.
\<close>

theorem versions_capped:
  assumes "length (DatasetVersions_getAll st) \<le> 5"
  shows "length (DatasetVersions_getAll (snd (DatasetVersions_save quota v u rt st))) \<le> 5 \<and>
    (fst (DatasetVersions_save quota v u rt st) = Inr () \<longrightarrow>
       DatasetVersions_getAll (snd (DatasetVersions_save quota v u rt st)) =
         (if length (DatasetVersions_getAll st) < 5 then v # DatasetVersions_getAll st
          else v # butlast (DatasetVersions_getAll st))) \<and>
    length (getDatasetVersions (snd (saveDatasetVersion quota v st))) \<le> 5 \<and>
    (fst (saveDatasetVersion quota v st) = None \<longrightarrow>
       getDatasetVersions (snd (saveDatasetVersion quota v st)) =
         (if length (getDatasetVersions st) < 5 then v # getDatasetVersions st
          else v # butlast (getDatasetVersions st)))"
proof (intro conjI impI)
  show "length (DatasetVersions_getAll (snd (DatasetVersions_save quota v u rt st))) \<le> 5"
    using assms by (simp add: DatasetVersions_save_versions del: butlast.simps)
next
  assume ok: "fst (DatasetVersions_save quota v u rt st) = Inr ()"
  have "length (DatasetVersions_getAll st) = 5 \<Longrightarrow> DatasetVersions_getAll st \<noteq> []"
    by auto
  with assms DatasetVersions_save_Inr [OF ok]
  show "DatasetVersions_getAll (snd (DatasetVersions_save quota v u rt st)) =
         (if length (DatasetVersions_getAll st) < 5 then v # DatasetVersions_getAll st
          else v # butlast (DatasetVersions_getAll st))"
    by (auto simp: DatasetVersions_save_versions)
next
  show "length (getDatasetVersions (snd (saveDatasetVersion quota v st))) \<le> 5"
    using assms by (auto simp: saveDatasetVersion_def getDatasetVersions_eq Let_def)
next
  assume "fst (saveDatasetVersion quota v st) = None"
  moreover have "length (DatasetVersions_getAll st) = 5 \<Longrightarrow> DatasetVersions_getAll st \<noteq> []"
    by auto
  ultimately show "getDatasetVersions (snd (saveDatasetVersion quota v st)) =
         (if length (getDatasetVersions st) < 5 then v # getDatasetVersions st
          else v # butlast (getDatasetVersions st))"
    using assms by (auto simp: saveDatasetVersion_def getDatasetVersions_eq Let_def split: if_splits)
qed

theorem versions_capped_witness:
  "length (DatasetVersions_getAll five_versions) \<le> 5 \<and>
   fst (DatasetVersions_save quota_all v6 None rt0 five_versions) = Inr () \<and>
   DatasetVersions_getAll (snd (DatasetVersions_save quota_all v6 None rt0 five_versions)) =
     [v6, v5, v4, v3, v2] \<and>
   fst (saveDatasetVersion quota_all v6 five_versions) = None \<and>
   getDatasetVersions (snd (saveDatasetVersion quota_all v6 five_versions)) = [v6, v5, v4, v3, v2]"
proof -
  have all: "DatasetVersions_getAll five_versions = [v5, v4, v3, v2, v1]"
    by (simp add: five_versions_def)
  have start: "length (DatasetVersions_getAll five_versions) \<le> 5"
    by (simp add: all)
  have ok: "fst (DatasetVersions_save quota_all v6 None rt0 five_versions) = Inr ()"
    by (simp add: DatasetVersions_save_def saveToStorage_def createAuditLog_eq quota_all_def Let_def)
  have ok': "fst (saveDatasetVersion quota_all v6 five_versions) = None"
    by (simp add: saveDatasetVersion_def quota_all_def Let_def)
  from versions_capped [OF start, of quota_all v6 None rt0] ok ok' all
  show ?thesis by (simp add: getDatasetVersions_eq)
qed

lemma JSON_number_finite: "finite_number n \<Longrightarrow> JSON_number n = n"
  by (cases n) simp_all

lemma JSON_number_idem [simp]: "JSON_number (JSON_number n) = JSON_number n"
  by (cases n) simp_all

lemma JSON_InvoiceLineItem_finite:
  "finite_number (quantity l) \<Longrightarrow> finite_number (unitPrice l) \<Longrightarrow> finite_number (total l) \<Longrightarrow>
     JSON_InvoiceLineItem l = l"
  by (simp add: JSON_InvoiceLineItem_def JSON_number_finite)

lemma JSON_Invoice_finite: "finite_amounts i \<Longrightarrow> JSON_Invoice i = i"
proof -
  assume f: "finite_amounts i"
  have amount: "finite_amount a \<Longrightarrow> map_option JSON_number a = a" for a
    by (cases a) (simp_all add: finite_amount_def JSON_number_finite)
  have lines: "map_option (map JSON_InvoiceLineItem) (Invoice.items i) = Invoice.items i"
  proof (cases "Invoice.items i")
    case None
    then show ?thesis by simp
  next
    case (Some ls)
    with f have "list_all (\<lambda>l. finite_number (quantity l) \<and> finite_number (unitPrice l) \<and>
        finite_number (total l)) ls"
      by (simp add: finite_amounts_def)
    then have "map JSON_InvoiceLineItem ls = ls"
      by (induction ls) (simp_all add: JSON_InvoiceLineItem_finite)
    with Some show ?thesis by simp
  qed
  from f show ?thesis
    by (simp add: JSON_Invoice_def finite_amounts_def amount lines)
qed

lemma JSON_Invoice_keeps [simp]:
  "Invoice.id (JSON_Invoice i) = Invoice.id i"
  "Invoice.partnerCode (JSON_Invoice i) = Invoice.partnerCode i"
  by (simp_all add: JSON_Invoice_def)

lemma Invoices_getAll_None: "Invoices_getAll st None = loadFromStorage (hcp_invoices st) []"
  by (simp add: Invoices_getAll_def truthy_string_def)

lemma Invoices_getAll_update [simp]:
  "Invoices_getAll (st\<lparr>hcp_invoices := Some xs\<rparr>) None = xs"
  "Invoices_getAll (st\<lparr>hcp_audit_logs := l\<rparr>) pc = Invoices_getAll st pc"
  by (simp_all add: Invoices_getAll_def truthy_string_def loadFromStorage_def)

lemma Invoices_getAll_Some:
  "Invoices_getAll st (Some pc) =
     (if pc = [] then Invoices_getAll st None
      else filter (\<lambda>i. Invoice.partnerCode i = Some pc) (Invoices_getAll st None))"
  by (simp add: Invoices_getAll_def truthy_string_def)

lemma Invoices_create_eq:
  "Invoices_create quota invoice u rt st =
     (if quota (st\<lparr>hcp_invoices := Some (map JSON_Invoice (invoice # Invoices_getAll st None))\<rparr>)
      then createAuditLog quota
             \<lparr>userId = default_userId u, userEmail = ''system'', action = INVOICE_CREATED,
              entityType = Entity_invoice, entityId = Invoice.id invoice,
              details = ''Created invoice '' @ template (Invoice.invoiceNumber invoice)
                          @ '' for '' @ template (Invoice.partnerCode invoice),
              AuditLogInput.partnerCode = Invoice.partnerCode invoice\<rparr> rt
             (st\<lparr>hcp_invoices := Some (map JSON_Invoice (invoice # Invoices_getAll st None))\<rparr>)
      else (Inl (Error ''Storage quota exceeded or unavailable for hcp_invoices''), st))"
  by (simp add: Invoices_create_def Invoices_save_def saveToStorage_def Let_def)

lemma Invoices_create_stored:
  "fst (Invoices_create quota invoice u rt st) = Inr () \<Longrightarrow>
     Invoices_getAll (snd (Invoices_create quota invoice u rt st)) None =
       JSON_Invoice invoice # map JSON_Invoice (Invoices_getAll st None)"
  by (simp add: Invoices_create_eq createAuditLog_eq split: if_splits)

text \<open>
  C6, as amended. After an \<^verbatim>\<open>Invoices.create\<close> that returns normally,
  \<^verbatim>\<open>getById\<close> of the invoice's id answers the invoice as JSON keeps it, which is
  the invoice itself when all its amounts are finite (a NaN or infinite amount comes
  back as \<^verbatim>\<open>null\<close>); \<^verbatim>\<open>getAll\<close> with the invoice's partner code contains that
  invoice; \<^verbatim>\<open>getAll\<close> with a non-empty partner code other than the invoice's does
  not; \<^verbatim>\<open>getAll\<close> with the empty partner code answers the whole collection.
\<close>

theorem create_then_read:
  assumes "fst (Invoices_create quota invoice u rt st) = Inr ()"
  shows "(Invoice.id invoice = Some x \<longrightarrow>
       Invoices_getById (snd (Invoices_create quota invoice u rt st)) x
         = Some (JSON_Invoice invoice)) \<and>
    (Invoice.id invoice = Some x \<and> finite_amounts invoice \<longrightarrow>
       Invoices_getById (snd (Invoices_create quota invoice u rt st)) x = Some invoice) \<and>
    (Invoice.partnerCode invoice = Some p \<longrightarrow>
       JSON_Invoice invoice
         \<in> set (Invoices_getAll (snd (Invoices_create quota invoice u rt st)) (Some p))) \<and>
    (pc \<noteq> [] \<and> Invoice.partnerCode invoice \<noteq> Some pc \<longrightarrow>
       JSON_Invoice invoice
         \<notin> set (Invoices_getAll (snd (Invoices_create quota invoice u rt st)) (Some pc))) \<and>
    Invoices_getAll (snd (Invoices_create quota invoice u rt st)) (Some [])
      = JSON_Invoice invoice # map JSON_Invoice (Invoices_getAll st None)"
  using Invoices_create_stored [OF assms] JSON_Invoice_finite [of invoice]
  by (auto simp: Invoices_getById_def Invoices_getAll_Some)

lemma finite_amounts_inv0: "finite_amounts inv0"
  by (simp add: finite_amounts_def finite_amount_def inv0_def item0_def)

theorem create_then_read_witness:
  "fst (Invoices_create quota_all inv0 None rt0 empty_storage) = Inr () \<and>
   Invoices_getById (snd (Invoices_create quota_all inv0 None rt0 empty_storage)) ''i1''
     = Some inv0 \<and>
   inv0 \<in> set (Invoices_getAll (snd (Invoices_create quota_all inv0 None rt0 empty_storage))
                  (Some ''P1'')) \<and>
   inv0 \<notin> set (Invoices_getAll (snd (Invoices_create quota_all inv0 None rt0 empty_storage))
                  (Some ''P2''))"
proof -
  have ok: "fst (Invoices_create quota_all inv0 None rt0 empty_storage) = Inr ()"
    by (simp add: Invoices_create_eq createAuditLog_eq quota_all_def)
  have f: "Invoice.id inv0 = Some ''i1''" "Invoice.partnerCode inv0 = Some ''P1''"
    by (simp_all add: inv0_def)
  have j: "JSON_Invoice inv0 = inv0"
    by (rule JSON_Invoice_finite [OF finite_amounts_inv0])
  from create_then_read [OF ok, of "''i1''" "''P1''" "''P2''"] ok finite_amounts_inv0 show ?thesis
    by (simp add: f j)
qed

lemma empty_code_not_excluded:
  "fst (Invoices_create quota_all inv0 None rt0 empty_storage) = Inr () \<and>
   Some [] \<noteq> Invoice.partnerCode inv0 \<and>
   inv0 \<in> set (Invoices_getAll (snd (Invoices_create quota_all inv0 None rt0 empty_storage))
                  (Some []))"
proof -
  have j: "JSON_Invoice inv0 = inv0"
    by (rule JSON_Invoice_finite [OF finite_amounts_inv0])
  show ?thesis
    by (simp add: Invoices_create_eq createAuditLog_eq quota_all_def Invoices_getAll_Some j)
       (simp add: inv0_def)
qed

lemma nonfinite_amounts_read_back:
  "fst (Invoices_create quota_all inv_nan None rt0 empty_storage) = Inr () \<and>
   Invoices_getById (snd (Invoices_create quota_all inv_nan None rt0 empty_storage)) ''i4''
     = Some (inv_nan\<lparr>Invoice.taxRate := Some Null, Invoice.totalAmount := Some Null\<rparr>) \<and>
   Invoices_getById (snd (Invoices_create quota_all inv_nan None rt0 empty_storage)) ''i4''
     \<noteq> Some inv_nan"
proof -
  have j: "JSON_Invoice inv_nan =
      inv_nan\<lparr>Invoice.taxRate := Some Null, Invoice.totalAmount := Some Null\<rparr>"
    by (simp add: JSON_Invoice_def JSON_InvoiceLineItem_def inv_nan_def inv0_def item0_def)
  have d: "inv_nan\<lparr>Invoice.taxRate := Some Null, Invoice.totalAmount := Some Null\<rparr> \<noteq> inv_nan"
    by (simp add: inv_nan_def inv0_def)
  have i: "Invoice.id inv_nan = Some ''i4''"
    by (simp add: inv_nan_def)
  have ok: "fst (Invoices_create quota_all inv_nan None rt0 empty_storage) = Inr ()"
    by (simp add: Invoices_create_eq createAuditLog_eq quota_all_def)
  have "Invoices_getById (snd (Invoices_create quota_all inv_nan None rt0 empty_storage)) ''i4''
     = Some (JSON_Invoice inv_nan)"
    using Invoices_create_stored [OF ok] by (simp add: Invoices_getById_def i)
  with ok j d show ?thesis by simp
qed

text \<open>
  C6 as stated fails twice. The empty partner code differs from the invoice's code
  \<^verbatim>\<open>P1\<close>, and \<^verbatim>\<open>getAll('')\<close> still contains the invoice. And an invoice with a
  tax rate NaN and an infinite total is read back with \<^verbatim>\<open>null\<close> for both, which
  is not the invoice that was created.
\<close>

theorem create_read_back_counterexample:
  "(fst (Invoices_create quota_all inv0 None rt0 empty_storage) = Inr () \<and>
    Some [] \<noteq> Invoice.partnerCode inv0 \<and>
    inv0 \<in> set (Invoices_getAll (snd (Invoices_create quota_all inv0 None rt0 empty_storage))
                   (Some []))) \<and>
   (fst (Invoices_create quota_all inv_nan None rt0 empty_storage) = Inr () \<and>
    Invoices_getById (snd (Invoices_create quota_all inv_nan None rt0 empty_storage)) ''i4''
      = Some (inv_nan\<lparr>Invoice.taxRate := Some Null, Invoice.totalAmount := Some Null\<rparr>) \<and>
    Invoices_getById (snd (Invoices_create quota_all inv_nan None rt0 empty_storage)) ''i4''
      \<noteq> Some inv_nan)"
  using empty_code_not_excluded nonfinite_amounts_read_back by (rule conjI)

lemma findIndex_None_iff: "(findIndex P xs = None) = (\<forall>x \<in> set xs. \<not> P x)"
  by (induction xs) (auto split: option.splits)

lemma findIndex_first:
  "k < length xs \<Longrightarrow> P (xs ! k) \<Longrightarrow> \<forall>j<k. \<not> P (xs ! j) \<Longrightarrow> findIndex P xs = Some k"
proof (induction xs arbitrary: k)
  case Nil
  then show ?case by simp
next
  case (Cons x xs)
  show ?case
  proof (cases k)
    case 0
    with Cons.prems show ?thesis by simp
  next
    case (Suc m)
    with Cons.prems have "\<not> P x" by auto
    moreover from Cons.prems Suc have "findIndex P xs = Some m"
      by (intro Cons.IH) auto
    ultimately show ?thesis using Suc by simp
  qed
qed

lemma Invoices_update_absent:
  "\<forall>i \<in> set (Invoices_getAll st None). Invoice.id i \<noteq> Some x \<Longrightarrow>
     Invoices_update quota x upd u rt st = (Inr (), st)"
  using findIndex_None_iff [of "\<lambda>i. Invoice.id i = Some x" "Invoices_getAll st None"]
  by (simp add: Invoices_update_def)

lemma Invoices_update_eq:
  "findIndex (\<lambda>i. Invoice.id i = Some x) (Invoices_getAll st None) = Some k \<Longrightarrow>
   Invoices_update quota x upd u rt st =
     (if quota (st\<lparr>hcp_invoices := Some (map JSON_Invoice
           ((Invoices_getAll st None)[k := merge (Invoices_getAll st None ! k) upd]))\<rparr>)
      then createAuditLog quota
             \<lparr>userId = default_userId u, userEmail = ''system'', action = UPDATE,
              entityType = Entity_invoice, entityId = Some x,
              details = ''Updated invoice '' @ template (Invoice.invoiceNumber
                ((Invoices_getAll st None)[k := merge (Invoices_getAll st None ! k) upd] ! k)),
              AuditLogInput.partnerCode = Invoice.partnerCode
                ((Invoices_getAll st None)[k := merge (Invoices_getAll st None ! k) upd] ! k)\<rparr> rt
             (st\<lparr>hcp_invoices := Some (map JSON_Invoice
                ((Invoices_getAll st None)[k := merge (Invoices_getAll st None ! k) upd]))\<rparr>)
      else (Inl (Error ''Storage quota exceeded or unavailable for hcp_invoices''), st))"
  by (simp add: Invoices_update_def Invoices_save_def saveToStorage_def Let_def)

lemma Invoices_update_stored:
  assumes "k < length (Invoices_getAll st None)"
    and "Invoice.id (Invoices_getAll st None ! k) = Some x"
    and "\<forall>j<k. Invoice.id (Invoices_getAll st None ! j) \<noteq> Some x"
    and "fst (Invoices_update quota x upd u rt st) = Inr ()"
  shows "Invoices_getAll (snd (Invoices_update quota x upd u rt st)) None =
     map JSON_Invoice ((Invoices_getAll st None)[k := merge (Invoices_getAll st None ! k) upd])"
proof -
  from assms(1-3) have "findIndex (\<lambda>i. Invoice.id i = Some x) (Invoices_getAll st None) = Some k"
    by (intro findIndex_first) auto
  from Invoices_update_eq [OF this, of quota upd u rt] assms(4) show ?thesis
    by (simp add: createAuditLog_eq split: if_splits)
qed

lemma merge_members:
  "merge r upd =
     \<lparr>Invoice.id = (case InvoiceUpdates.id upd of None \<Rightarrow> Invoice.id r | Some m \<Rightarrow> m),
      Invoice.invoiceNumber =
        (case InvoiceUpdates.invoiceNumber upd of None \<Rightarrow> Invoice.invoiceNumber r | Some m \<Rightarrow> m),
      Invoice.partnerCode =
        (case InvoiceUpdates.partnerCode upd of None \<Rightarrow> Invoice.partnerCode r | Some m \<Rightarrow> m),
      Invoice.billingPeriod =
        (case InvoiceUpdates.billingPeriod upd of None \<Rightarrow> Invoice.billingPeriod r | Some m \<Rightarrow> m),
      Invoice.issueDate =
        (case InvoiceUpdates.issueDate upd of None \<Rightarrow> Invoice.issueDate r | Some m \<Rightarrow> m),
      Invoice.dueDate =
        (case InvoiceUpdates.dueDate upd of None \<Rightarrow> Invoice.dueDate r | Some m \<Rightarrow> m),
      Invoice.currency =
        (case InvoiceUpdates.currency upd of None \<Rightarrow> Invoice.currency r | Some m \<Rightarrow> m),
      Invoice.items =
        (case InvoiceUpdates.items upd of None \<Rightarrow> Invoice.items r | Some m \<Rightarrow> m),
      Invoice.subtotal =
        (case InvoiceUpdates.subtotal upd of None \<Rightarrow> Invoice.subtotal r | Some m \<Rightarrow> m),
      Invoice.taxRate =
        (case InvoiceUpdates.taxRate upd of None \<Rightarrow> Invoice.taxRate r | Some m \<Rightarrow> m),
      Invoice.taxAmount =
        (case InvoiceUpdates.taxAmount upd of None \<Rightarrow> Invoice.taxAmount r | Some m \<Rightarrow> m),
      Invoice.totalAmount =
        (case InvoiceUpdates.totalAmount upd of None \<Rightarrow> Invoice.totalAmount r | Some m \<Rightarrow> m),
      Invoice.status =
        (case InvoiceUpdates.status upd of None \<Rightarrow> Invoice.status r | Some m \<Rightarrow> m),
      Invoice.notes =
        (case InvoiceUpdates.notes upd of None \<Rightarrow> Invoice.notes r | Some m \<Rightarrow> m),
      Invoice.publicMemo =
        (case InvoiceUpdates.publicMemo upd of None \<Rightarrow> Invoice.publicMemo r | Some m \<Rightarrow> m),
      Invoice.paidAt =
        (case InvoiceUpdates.paidAt upd of None \<Rightarrow> Invoice.paidAt r | Some m \<Rightarrow> m),
      Invoice.transactionReference =
        (case InvoiceUpdates.transactionReference upd of
           None \<Rightarrow> Invoice.transactionReference r | Some m \<Rightarrow> m)\<rparr>"
  by (simp add: merge_def spread_def)

text \<open>
  C7, as amended. \<^verbatim>\<open>Invoices.update\<close> with an id no stored invoice has returns
  normally and leaves the whole storage as it was (no write, no audit entry). With an
  id whose first holder is at index \<open>k\<close>, an update that returns normally has put at
  \<open>k\<close> the record that takes each member from the updates when the updates have it
  (the value \<^verbatim>\<open>undefined\<close> included) and from the stored record otherwise, written
  as JSON keeps it (a NaN or infinite amount as \<^verbatim>\<open>null\<close>); the collection keeps its
  length, and every other record is as it was (the stored records being what JSON text
  can hold).
\<close>

theorem update_spec:
  fixes st :: "'z localStorage" and k :: nat and old :: "Invoice list" and r :: Invoice
  defines "old \<equiv> Invoices_getAll st None"
    and "r \<equiv> Invoices_getAll st None ! k"
  shows
  "((\<forall>i \<in> set old. Invoice.id i \<noteq> Some x) \<longrightarrow>
      Invoices_update quota x upd u rt st = (Inr (), st)) \<and>
   (k < length old \<and> Invoice.id r = Some x \<and> (\<forall>j<k. Invoice.id (old ! j) \<noteq> Some x) \<and>
    fst (Invoices_update quota x upd u rt st) = Inr () \<longrightarrow>
      Invoices_getAll (snd (Invoices_update quota x upd u rt st)) None =
        map JSON_Invoice (old[k :=
          \<lparr>Invoice.id = (case InvoiceUpdates.id upd of None \<Rightarrow> Invoice.id r | Some m \<Rightarrow> m),
           Invoice.invoiceNumber =
             (case InvoiceUpdates.invoiceNumber upd of
                None \<Rightarrow> Invoice.invoiceNumber r | Some m \<Rightarrow> m),
           Invoice.partnerCode =
             (case InvoiceUpdates.partnerCode upd of
                None \<Rightarrow> Invoice.partnerCode r | Some m \<Rightarrow> m),
           Invoice.billingPeriod =
             (case InvoiceUpdates.billingPeriod upd of
                None \<Rightarrow> Invoice.billingPeriod r | Some m \<Rightarrow> m),
           Invoice.issueDate =
             (case InvoiceUpdates.issueDate upd of None \<Rightarrow> Invoice.issueDate r | Some m \<Rightarrow> m),
           Invoice.dueDate =
             (case InvoiceUpdates.dueDate upd of None \<Rightarrow> Invoice.dueDate r | Some m \<Rightarrow> m),
           Invoice.currency =
             (case InvoiceUpdates.currency upd of None \<Rightarrow> Invoice.currency r | Some m \<Rightarrow> m),
           Invoice.items =
             (case InvoiceUpdates.items upd of None \<Rightarrow> Invoice.items r | Some m \<Rightarrow> m),
           Invoice.subtotal =
             (case InvoiceUpdates.subtotal upd of None \<Rightarrow> Invoice.subtotal r | Some m \<Rightarrow> m),
           Invoice.taxRate =
             (case InvoiceUpdates.taxRate upd of None \<Rightarrow> Invoice.taxRate r | Some m \<Rightarrow> m),
           Invoice.taxAmount =
             (case InvoiceUpdates.taxAmount upd of None \<Rightarrow> Invoice.taxAmount r | Some m \<Rightarrow> m),
           Invoice.totalAmount =
             (case InvoiceUpdates.totalAmount upd of
                None \<Rightarrow> Invoice.totalAmount r | Some m \<Rightarrow> m),
           Invoice.status =
             (case InvoiceUpdates.status upd of None \<Rightarrow> Invoice.status r | Some m \<Rightarrow> m),
           Invoice.notes =
             (case InvoiceUpdates.notes upd of None \<Rightarrow> Invoice.notes r | Some m \<Rightarrow> m),
           Invoice.publicMemo =
             (case InvoiceUpdates.publicMemo upd of
                None \<Rightarrow> Invoice.publicMemo r | Some m \<Rightarrow> m),
           Invoice.paidAt =
             (case InvoiceUpdates.paidAt upd of None \<Rightarrow> Invoice.paidAt r | Some m \<Rightarrow> m),
           Invoice.transactionReference =
             (case InvoiceUpdates.transactionReference upd of
                None \<Rightarrow> Invoice.transactionReference r | Some m \<Rightarrow> m)\<rparr>]) \<and>
      length (Invoices_getAll (snd (Invoices_update quota x upd u rt st)) None) = length old \<and>
      ((\<forall>i \<in> set old. JSON_Invoice i = i) \<longrightarrow>
         (\<forall>j < length old. j \<noteq> k \<longrightarrow>
            Invoices_getAll (snd (Invoices_update quota x upd u rt st)) None ! j = old ! j)))"
proof -
  have absent: "(\<forall>i \<in> set old. Invoice.id i \<noteq> Some x) \<longrightarrow>
      Invoices_update quota x upd u rt st = (Inr (), st)"
    unfolding old_def using Invoices_update_absent [of st x quota upd u rt] by blast
  have present: "k < length old \<and> Invoice.id r = Some x \<and> (\<forall>j<k. Invoice.id (old ! j) \<noteq> Some x) \<and>
      fst (Invoices_update quota x upd u rt st) = Inr () \<longrightarrow>
      Invoices_getAll (snd (Invoices_update quota x upd u rt st)) None =
        map JSON_Invoice (old[k := merge r upd])"
    unfolding old_def r_def using Invoices_update_stored [of k st x quota upd u rt] by blast
  have others: "new = map JSON_Invoice (old[k := m]) \<Longrightarrow>
      length new = length old \<and>
      ((\<forall>i \<in> set old. JSON_Invoice i = i) \<longrightarrow> (\<forall>j < length old. j \<noteq> k \<longrightarrow> new ! j = old ! j))"
    for new m
    by (auto simp: nth_list_update)
  from absent present others [of "Invoices_getAll (snd (Invoices_update quota x upd u rt st)) None"
      "merge r upd"]
  show ?thesis
    unfolding merge_members [symmetric] by blast
qed

lemma JSON_three: "JSON_Invoice inv0 = inv0" "JSON_Invoice inv1 = inv1" "JSON_Invoice inv2 = inv2"
  by (rule JSON_Invoice_finite,
      simp add: finite_amounts_def finite_amount_def inv0_def inv1_def inv2_def item0_def)+

theorem update_spec_witness:
  "Invoices_update quota_all ''i9'' settle None rt0 three_invoices = (Inr (), three_invoices) \<and>
   fst (Invoices_update quota_all ''i2'' settle None rt0 three_invoices) = Inr () \<and>
   Invoices_getAll (snd (Invoices_update quota_all ''i2'' settle None rt0 three_invoices)) None =
     [inv0,
      inv1\<lparr>Invoice.status := Some Paid, Invoice.notes := None, Invoice.taxRate := Some Null,
        Invoice.transactionReference := Some ''0xdef''\<rparr>,
      inv2] \<and>
   Invoice.paidAt (Invoices_getAll
       (snd (Invoices_update quota_all ''i2'' settle None rt0 three_invoices)) None ! 1) =
     Some ''2024-10-01'' \<and>
   Invoices_getAll (snd (Invoices_update quota_all ''i2'' settle None rt0 three_invoices)) None ! 0
     = inv0 \<and>
   Invoices_getAll (snd (Invoices_update quota_all ''i2'' settle None rt0 three_invoices)) None ! 2
     = inv2"
proof -
  have all: "Invoices_getAll three_invoices None = [inv0, inv1, inv2]"
    by (simp add: three_invoices_def)
  have ids: "Invoice.id inv0 = Some ''i1''" "Invoice.id inv1 = Some ''i2''"
    "Invoice.id inv2 = Some ''i3''"
    by (simp_all add: inv0_def inv1_def inv2_def)
  have idx: "findIndex (\<lambda>i. Invoice.id i = Some ''i2'') [inv0, inv1, inv2] = Some 1"
    by (simp add: ids)
  have ok: "fst (Invoices_update quota_all ''i2'' settle None rt0 three_invoices) = Inr ()"
    by (simp add: Invoices_update_def all idx Invoices_save_def saveToStorage_def
        createAuditLog_eq quota_all_def Let_def)
  have absent: "\<forall>i \<in> set (Invoices_getAll three_invoices None). Invoice.id i \<noteq> Some ''i9''"
    by (simp add: all ids)
  have present: "1 < length (Invoices_getAll three_invoices None) \<and>
      Invoice.id (Invoices_getAll three_invoices None ! 1) = Some ''i2'' \<and>
      (\<forall>j<1. Invoice.id (Invoices_getAll three_invoices None ! j) \<noteq> Some ''i2'')"
    by (simp add: all ids)
  have stored: "\<forall>i \<in> set (Invoices_getAll three_invoices None). JSON_Invoice i = i"
    by (simp add: all JSON_three)
  have merged: "JSON_Invoice
      \<lparr>Invoice.id = (case InvoiceUpdates.id settle of None \<Rightarrow> Invoice.id inv1 | Some m \<Rightarrow> m),
       Invoice.invoiceNumber =
         (case InvoiceUpdates.invoiceNumber settle of
            None \<Rightarrow> Invoice.invoiceNumber inv1 | Some m \<Rightarrow> m),
       Invoice.partnerCode =
         (case InvoiceUpdates.partnerCode settle of
            None \<Rightarrow> Invoice.partnerCode inv1 | Some m \<Rightarrow> m),
       Invoice.billingPeriod =
         (case InvoiceUpdates.billingPeriod settle of
            None \<Rightarrow> Invoice.billingPeriod inv1 | Some m \<Rightarrow> m),
       Invoice.issueDate =
         (case InvoiceUpdates.issueDate settle of None \<Rightarrow> Invoice.issueDate inv1 | Some m \<Rightarrow> m),
       Invoice.dueDate =
         (case InvoiceUpdates.dueDate settle of None \<Rightarrow> Invoice.dueDate inv1 | Some m \<Rightarrow> m),
       Invoice.currency =
         (case InvoiceUpdates.currency settle of None \<Rightarrow> Invoice.currency inv1 | Some m \<Rightarrow> m),
       Invoice.items =
         (case InvoiceUpdates.items settle of None \<Rightarrow> Invoice.items inv1 | Some m \<Rightarrow> m),
       Invoice.subtotal =
         (case InvoiceUpdates.subtotal settle of None \<Rightarrow> Invoice.subtotal inv1 | Some m \<Rightarrow> m),
       Invoice.taxRate =
         (case InvoiceUpdates.taxRate settle of None \<Rightarrow> Invoice.taxRate inv1 | Some m \<Rightarrow> m),
       Invoice.taxAmount =
         (case InvoiceUpdates.taxAmount settle of None \<Rightarrow> Invoice.taxAmount inv1 | Some m \<Rightarrow> m),
       Invoice.totalAmount =
         (case InvoiceUpdates.totalAmount settle of
            None \<Rightarrow> Invoice.totalAmount inv1 | Some m \<Rightarrow> m),
       Invoice.status =
         (case InvoiceUpdates.status settle of None \<Rightarrow> Invoice.status inv1 | Some m \<Rightarrow> m),
       Invoice.notes =
         (case InvoiceUpdates.notes settle of None \<Rightarrow> Invoice.notes inv1 | Some m \<Rightarrow> m),
       Invoice.publicMemo =
         (case InvoiceUpdates.publicMemo settle of
            None \<Rightarrow> Invoice.publicMemo inv1 | Some m \<Rightarrow> m),
       Invoice.paidAt =
         (case InvoiceUpdates.paidAt settle of None \<Rightarrow> Invoice.paidAt inv1 | Some m \<Rightarrow> m),
       Invoice.transactionReference =
         (case InvoiceUpdates.transactionReference settle of
            None \<Rightarrow> Invoice.transactionReference inv1 | Some m \<Rightarrow> m)\<rparr> =
      inv1\<lparr>Invoice.status := Some Paid, Invoice.notes := None, Invoice.taxRate := Some Null,
        Invoice.transactionReference := Some ''0xdef''\<rparr>"
    by (simp add: settle_def no_updates_def inv1_def JSON_Invoice_def)
  note at9 = update_spec [where st = three_invoices and x = "''i9''" and quota = quota_all
      and upd = settle and u = None and rt = rt0 and k = 1]
  have n1: "Invoices_getAll three_invoices None ! 1 = inv1"
    by (simp add: all)
  note at2 = update_spec [where st = three_invoices and x = "''i2''" and quota = quota_all
      and upd = settle and u = None and rt = rt0 and k = 1, unfolded n1]
  from at9 absent
  have one: "Invoices_update quota_all ''i9'' settle None rt0 three_invoices = (Inr (), three_invoices)"
    by blast
  from at2 ok
  have list: "Invoices_getAll (snd (Invoices_update quota_all ''i2'' settle None rt0 three_invoices)) None =
     [inv0,
      inv1\<lparr>Invoice.status := Some Paid, Invoice.notes := None, Invoice.taxRate := Some Null,
        Invoice.transactionReference := Some ''0xdef''\<rparr>,
      inv2]"
    by (simp add: all ids merged JSON_three)
  from at2 ok stored
  have rest: "\<forall>j < length (Invoices_getAll three_invoices None). j \<noteq> 1 \<longrightarrow>
      Invoices_getAll (snd (Invoices_update quota_all ''i2'' settle None rt0 three_invoices)) None ! j
        = Invoices_getAll three_invoices None ! j"
    using present [unfolded n1] by blast
  have paid: "Invoice.paidAt (inv1\<lparr>Invoice.status := Some Paid, Invoice.notes := None,
      Invoice.taxRate := Some Null, Invoice.transactionReference := Some ''0xdef''\<rparr>) =
      Some ''2024-10-01''"
    by (simp add: inv1_def)
  from rest have r0: "Invoices_getAll (snd (Invoices_update quota_all ''i2'' settle None rt0
        three_invoices)) None ! 0 = inv0"
    and r2: "Invoices_getAll (snd (Invoices_update quota_all ''i2'' settle None rt0
        three_invoices)) None ! 2 = inv2"
    by (simp_all add: all)
  from one ok list r0 r2 show ?thesis
    by (simp add: paid)
qed

text \<open>
  C7 as stated fails for an update that carries an amount that is not finite: the merge
  of the stored invoice and the updates has the tax rate NaN, the record that the
  update leaves in the collection has \<^verbatim>\<open>null\<close>.
\<close>

theorem update_nonfinite_counterexample:
  "Invoices_getAll three_invoices None ! 1 = inv1 \<and>
   Invoice.id inv1 = Some ''i2'' \<and>
   fst (Invoices_update quota_all ''i2'' settle None rt0 three_invoices) = Inr () \<and>
   Invoice.taxRate (merge inv1 settle) = Some NaN \<and>
   Invoice.taxRate (Invoices_getAll
       (snd (Invoices_update quota_all ''i2'' settle None rt0 three_invoices)) None ! 1) =
     Some Null \<and>
   Invoices_getAll (snd (Invoices_update quota_all ''i2'' settle None rt0 three_invoices)) None ! 1
     \<noteq> merge inv1 settle"
proof -
  have all: "Invoices_getAll three_invoices None = [inv0, inv1, inv2]"
    by (simp add: three_invoices_def)
  have ids: "Invoice.id inv0 = Some ''i1''" "Invoice.id inv1 = Some ''i2''"
    by (simp_all add: inv0_def inv1_def)
  have idx: "findIndex (\<lambda>i. Invoice.id i = Some ''i2'') [inv0, inv1, inv2] = Some 1"
    by (simp add: ids)
  have ok: "fst (Invoices_update quota_all ''i2'' settle None rt0 three_invoices) = Inr ()"
    by (simp add: Invoices_update_def all idx Invoices_save_def saveToStorage_def
        createAuditLog_eq quota_all_def Let_def)
  have m: "Invoice.taxRate (merge inv1 settle) = Some NaN"
    by (simp add: merge_def spread_def settle_def no_updates_def)
  have "Invoices_getAll (snd (Invoices_update quota_all ''i2'' settle None rt0 three_invoices)) None =
      map JSON_Invoice ([inv0, inv1, inv2][1 := merge ([inv0, inv1, inv2] ! 1) settle])"
    using Invoices_update_eq [of "''i2''" three_invoices 1 quota_all settle None rt0] idx
    by (simp add: all createAuditLog_eq quota_all_def)
  then have s: "Invoices_getAll (snd (Invoices_update quota_all ''i2'' settle None rt0
      three_invoices)) None ! 1 = JSON_Invoice (merge inv1 settle)"
    by simp
  have j: "Invoice.taxRate (JSON_Invoice (merge inv1 settle)) = Some Null"
    by (simp add: JSON_Invoice_def m)
  from m j have "JSON_Invoice (merge inv1 settle) \<noteq> merge inv1 settle"
    by auto
  with all ids ok m j s show ?thesis by simp
qed

lemma audited_write:
  assumes "quota (setItem (JSON_roundtrip d) st)"
    and "fst (createAuditLog quota e rt (setItem (JSON_roundtrip d) st)) \<noteq> Inr ()"
  shows "(case saveToStorage quota d st of
            (Inl x, st') \<Rightarrow> (Inl x, st')
          | (Inr _, st') \<Rightarrow> createAuditLog quota e rt st') =
         (Inl (Error ''Storage quota exceeded or unavailable for hcp_audit_logs''),
          setItem (JSON_roundtrip d) st)"
  using assms by (simp add: saveToStorage_def createAuditLog_eq split: if_splits)

lemma findIndex_less: "findIndex P xs = Some k \<Longrightarrow> k < length xs"
  by (induction xs arbitrary: k) (auto split: if_splits option.splits)

text \<open>
  C3, as amended. When the medium accepts the entity write of an audited operation and
  then rejects the audit write of that operation, the entity write stays in the storage
  and the operation raises the audit write's storage error to its caller. This holds
  for \<^verbatim>\<open>Invoices.create\<close>, \<^verbatim>\<open>Invoices.update\<close> (id present),
  \<^verbatim>\<open>DatasetVersions.save\<close>, \<^verbatim>\<open>DatasetVersions.delete\<close> (id present),
  \<^verbatim>\<open>Events.create\<close> and \<^verbatim>\<open>Campaigns.logCampaign\<close>, each with the entry it
  records.
\<close>

theorem audit_failure_propagates:
  fixes st :: "'z localStorage" and quota :: "'z quota" and k :: nat
    and version :: "'z DatasetVersion_scheme" and gone :: "'z DatasetVersion_scheme"
    and audit_error :: error
    and s1 s2 s3 s4 s5 s6 :: "'z localStorage"
    and e1 e2 e3 e4 e5 e6 :: AuditLogInput
    and invoice :: Invoice and upd :: InvoiceUpdates and x y :: string
    and u :: "string option" and rt :: runtime
    and event :: CommunityEvent and campaign :: OutreachCampaign
  defines "audit_error \<equiv> Error ''Storage quota exceeded or unavailable for hcp_audit_logs''"
    and "s1 \<equiv> setItem (JSON_roundtrip (INVOICES (invoice # Invoices_getAll st None))) st"
    and "e1 \<equiv> \<lparr>userId = default_userId u, userEmail = ''system'', action = INVOICE_CREATED,
           entityType = Entity_invoice, entityId = Invoice.id invoice,
           details = ''Created invoice '' @ template (Invoice.invoiceNumber invoice)
                       @ '' for '' @ template (Invoice.partnerCode invoice),
           AuditLogInput.partnerCode = Invoice.partnerCode invoice\<rparr>"
    and "s2 \<equiv> setItem (JSON_roundtrip (INVOICES ((Invoices_getAll st None)
           [k := merge (Invoices_getAll st None ! k) upd]))) st"
    and "e2 \<equiv> \<lparr>userId = default_userId u, userEmail = ''system'', action = UPDATE,
           entityType = Entity_invoice, entityId = Some x,
           details = ''Updated invoice '' @ template (Invoice.invoiceNumber
                       (merge (Invoices_getAll st None ! k) upd)),
           AuditLogInput.partnerCode =
             Invoice.partnerCode (merge (Invoices_getAll st None ! k) upd)\<rparr>"
    and "s3 \<equiv> setItem (JSON_roundtrip (VERSIONS
           (if length (version # DatasetVersions_getAll st) > 5
            then butlast (version # DatasetVersions_getAll st)
            else version # DatasetVersions_getAll st))) st"
    and "e3 \<equiv> \<lparr>userId = default_userId u, userEmail = ''system'', action = UPLOAD,
           entityType = Entity_developer, entityId = Some (DatasetVersion.id version),
           details = ''Uploaded dataset: '' @ fileName version @ '' with ''
                       @ Number_toString rt (recordCount version) @ '' records'',
           AuditLogInput.partnerCode = None\<rparr>"
    and "s4 \<equiv> setItem (JSON_roundtrip (VERSIONS
           (filter (\<lambda>v. DatasetVersion.id v \<noteq> y) (DatasetVersions_getAll st)))) st"
    and "e4 \<equiv> \<lparr>userId = default_userId u, userEmail = ''system'', action = DELETE,
           entityType = Entity_developer, entityId = Some y,
           details = ''Deleted dataset: '' @ fileName gone,
           AuditLogInput.partnerCode = None\<rparr>"
    and "s5 \<equiv> setItem (JSON_roundtrip (EVENTS (Events_getAll st None @ [event]))) st"
    and "e5 \<equiv> \<lparr>userId = default_userId u, userEmail = ''system'', action = CREATE,
           entityType = Entity_event, entityId = Some (CommunityEvent.id event),
           details = ''Created event: '' @ title event,
           AuditLogInput.partnerCode = Some (CommunityEvent.partnerCode event)\<rparr>"
    and "s6 \<equiv> setItem (JSON_roundtrip (CAMPAIGNS (campaign # Campaigns_getAll st))) st"
    and "e6 \<equiv> \<lparr>userId = default_userId u, userEmail = ''system'', action = EMAIL_SENT,
           entityType = Entity_campaign, entityId = Some (OutreachCampaign.id campaign),
           details = ''Sent campaign '' @ [CHR 0x22] @ OutreachCampaign.name campaign
                       @ [CHR 0x22] @ '' to '' @ Number_toString rt (sentCount campaign)
                       @ '' recipients'',
           AuditLogInput.partnerCode = None\<rparr>"
  shows
  "(quota s1 \<and> fst (createAuditLog quota e1 rt s1) \<noteq> Inr () \<longrightarrow>
      Invoices_create quota invoice u rt st = (Inl audit_error, s1)) \<and>
   (findIndex (\<lambda>i. Invoice.id i = Some x) (Invoices_getAll st None) = Some k \<and>
    quota s2 \<and> fst (createAuditLog quota e2 rt s2) \<noteq> Inr () \<longrightarrow>
      Invoices_update quota x upd u rt st = (Inl audit_error, s2)) \<and>
   (quota s3 \<and> fst (createAuditLog quota e3 rt s3) \<noteq> Inr () \<longrightarrow>
      DatasetVersions_save quota version u rt st = (Inl audit_error, s3)) \<and>
   (DatasetVersions_getById st y = Some gone \<and>
    quota s4 \<and> fst (createAuditLog quota e4 rt s4) \<noteq> Inr () \<longrightarrow>
      DatasetVersions_delete quota y u rt st = (Inl audit_error, s4)) \<and>
   (quota s5 \<and> fst (createAuditLog quota e5 rt s5) \<noteq> Inr () \<longrightarrow>
      Events_create quota event u rt st = (Inl audit_error, s5)) \<and>
   (quota s6 \<and> fst (createAuditLog quota e6 rt s6) \<noteq> Inr () \<longrightarrow>
      logCampaign quota campaign u rt st = (Inl audit_error, s6))"
proof -
  have create: "quota s1 \<and> fst (createAuditLog quota e1 rt s1) \<noteq> Inr () \<longrightarrow>
      Invoices_create quota invoice u rt st = (Inl audit_error, s1)"
    unfolding Invoices_create_def Invoices_save_def Let_def s1_def e1_def audit_error_def
    by (intro impI audited_write) auto
  have update: "findIndex (\<lambda>i. Invoice.id i = Some x) (Invoices_getAll st None) = Some k \<and>
      quota s2 \<and> fst (createAuditLog quota e2 rt s2) \<noteq> Inr () \<longrightarrow>
      Invoices_update quota x upd u rt st = (Inl audit_error, s2)"
  proof
    assume a: "findIndex (\<lambda>i. Invoice.id i = Some x) (Invoices_getAll st None) = Some k \<and>
      quota s2 \<and> fst (createAuditLog quota e2 rt s2) \<noteq> Inr ()"
    then have f: "findIndex (\<lambda>i. Invoice.id i = Some x) (Invoices_getAll st None) = Some k"
      by blast
    then have "k < length (Invoices_getAll st None)"
      by (rule findIndex_less)
    then have n: "(Invoices_getAll st None)[k := merge (Invoices_getAll st None ! k) upd] ! k =
        merge (Invoices_getAll st None ! k) upd"
      by simp
    from a show "Invoices_update quota x upd u rt st = (Inl audit_error, s2)"
      unfolding Invoices_update_def Invoices_save_def Let_def f option.case n s2_def e2_def
        audit_error_def
      by (intro audited_write) auto
  qed
  have save: "quota s3 \<and> fst (createAuditLog quota e3 rt s3) \<noteq> Inr () \<longrightarrow>
      DatasetVersions_save quota version u rt st = (Inl audit_error, s3)"
    unfolding DatasetVersions_save_def Let_def s3_def e3_def audit_error_def
    by (intro impI audited_write) auto
  have delete: "DatasetVersions_getById st y = Some gone \<and>
      quota s4 \<and> fst (createAuditLog quota e4 rt s4) \<noteq> Inr () \<longrightarrow>
      DatasetVersions_delete quota y u rt st = (Inl audit_error, s4)"
  proof
    assume a: "DatasetVersions_getById st y = Some gone \<and>
      quota s4 \<and> fst (createAuditLog quota e4 rt s4) \<noteq> Inr ()"
    then have f: "find (\<lambda>v. DatasetVersion.id v = y) (DatasetVersions_getAll st) = Some gone"
      by (simp add: DatasetVersions_getById_def)
    from a show "DatasetVersions_delete quota y u rt st = (Inl audit_error, s4)"
      unfolding DatasetVersions_delete_def Let_def f option.case s4_def e4_def audit_error_def
      by (intro audited_write) auto
  qed
  have events: "quota s5 \<and> fst (createAuditLog quota e5 rt s5) \<noteq> Inr () \<longrightarrow>
      Events_create quota event u rt st = (Inl audit_error, s5)"
    unfolding Events_create_def Let_def s5_def e5_def audit_error_def
    by (intro impI audited_write) auto
  have campaigns: "quota s6 \<and> fst (createAuditLog quota e6 rt s6) \<noteq> Inr () \<longrightarrow>
      logCampaign quota campaign u rt st = (Inl audit_error, s6)"
    unfolding logCampaign_def Let_def s6_def e6_def audit_error_def
    by (intro impI audited_write) auto
  from create update save delete events campaigns show ?thesis by blast
qed

lemma quota_no_audit_rejects:
  "fst (createAuditLog quota_no_audit e rt st) \<noteq> Inr ()"
  by (simp add: createAuditLog_eq quota_no_audit_def)

theorem audit_failure_propagates_witness:
  "fst (createAuditLog quota_no_invoice_audit login_entry rt0
          (empty_storage\<lparr>hcp_invoices := Some [inv0]\<rparr>)) = Inr () \<and>
   Invoices_create quota_no_invoice_audit inv0 None rt0 empty_storage =
     (Inl (Error ''Storage quota exceeded or unavailable for hcp_audit_logs''),
      empty_storage\<lparr>hcp_invoices := Some [inv0]\<rparr>) \<and>
   Invoices_update quota_no_audit ''i2'' settle None rt0 three_invoices =
     (Inl (Error ''Storage quota exceeded or unavailable for hcp_audit_logs''),
      three_invoices\<lparr>hcp_invoices := Some [inv0,
        inv1\<lparr>Invoice.status := Some Paid, Invoice.notes := None, Invoice.taxRate := Some Null,
          Invoice.transactionReference := Some ''0xdef''\<rparr>,
        inv2]\<rparr>) \<and>
   DatasetVersions_save quota_no_audit v6 None rt0 five_versions =
     (Inl (Error ''Storage quota exceeded or unavailable for hcp_audit_logs''),
      five_versions\<lparr>hcp_versions := Some [v6, v5, v4, v3, v2]\<rparr>) \<and>
   DatasetVersions_delete quota_no_audit ''v3'' None rt0 five_versions =
     (Inl (Error ''Storage quota exceeded or unavailable for hcp_audit_logs''),
      five_versions\<lparr>hcp_versions := Some [v5, v4, v2, v1]\<rparr>) \<and>
   Events_create quota_no_audit event0 None rt0 empty_storage =
     (Inl (Error ''Storage quota exceeded or unavailable for hcp_audit_logs''),
      empty_storage\<lparr>hcp_events := Some [event0]\<rparr>) \<and>
   logCampaign quota_no_audit campaign0 None rt0 empty_storage =
     (Inl (Error ''Storage quota exceeded or unavailable for hcp_audit_logs''),
      empty_storage\<lparr>hcp_campaigns := Some [campaign0]\<rparr>)"
proof -
  have logs: "getAuditLogs_all empty_storage = []" "getAuditLogs_all three_invoices = []"
    "getAuditLogs_all five_versions = []"
    by (simp_all add: getAuditLogs_all_def loadFromStorage_def empty_storage_def
        three_invoices_def five_versions_def)
  have q: "getAuditLogs_all s = [] \<Longrightarrow> quota_no_audit (setItem (JSON_roundtrip (INVOICES is)) s)"
    "getAuditLogs_all s = [] \<Longrightarrow> quota_no_audit (setItem (JSON_roundtrip (VERSIONS vs)) s)"
    "getAuditLogs_all s = [] \<Longrightarrow> quota_no_audit (setItem (JSON_roundtrip (EVENTS es)) s)"
    "getAuditLogs_all s = [] \<Longrightarrow> quota_no_audit (setItem (JSON_roundtrip (CAMPAIGNS cs)) s)"
    for s "is" vs es cs
    by (simp_all add: quota_no_audit_def getAuditLogs_all_def)
  have all: "Invoices_getAll empty_storage None = []"
    "Invoices_getAll three_invoices None = [inv0, inv1, inv2]"
    "DatasetVersions_getAll five_versions = [v5, v4, v3, v2, v1]"
    "Events_getAll empty_storage None = []" "Campaigns_getAll empty_storage = []"
    by (simp_all add: Invoices_getAll_None Events_getAll_def Campaigns_getAll_def
        DatasetVersions_getAll_def truthy_string_def loadFromStorage_def empty_storage_def
        three_invoices_def five_versions_def)
  have idx: "findIndex (\<lambda>i. Invoice.id i = Some ''i2'') (Invoices_getAll three_invoices None) = Some 1"
    by (simp add: all inv0_def inv1_def)
  have byid: "DatasetVersions_getById five_versions ''v3'' = Some v3"
    by (simp add: DatasetVersions_getById_def all v5_def v4_def v3_def)
  have del: "filter (\<lambda>v. DatasetVersion.id v \<noteq> ''v3'') [v5, v4, v3, v2, v1] = [v5, v4, v2, v1]"
    by (simp add: v5_def v4_def v3_def v2_def v1_def)
  have j0: "JSON_Invoice inv0 = inv0"
    by (rule JSON_three)
  have merged: "map JSON_Invoice ([inv0, inv1, inv2][1 := merge ([inv0, inv1, inv2] ! 1) settle]) =
      [inv0,
       inv1\<lparr>Invoice.status := Some Paid, Invoice.notes := None, Invoice.taxRate := Some Null,
         Invoice.transactionReference := Some ''0xdef''\<rparr>,
       inv2]"
    by (simp add: JSON_three)
       (simp add: merge_def spread_def settle_def no_updates_def inv1_def JSON_Invoice_def)
  have je: "JSON_CommunityEvent event0 = event0" "JSON_OutreachCampaign campaign0 = campaign0"
    by (simp_all add: JSON_CommunityEvent_def JSON_OutreachCampaign_def event0_def campaign0_def)
  have r: "fst (createAuditLog quota_no_audit e rt0 s) \<noteq> Inr ()" for e s
    by (rule quota_no_audit_rejects)
  have taken: "fst (createAuditLog quota_no_invoice_audit login_entry rt0
          (empty_storage\<lparr>hcp_invoices := Some [inv0]\<rparr>)) = Inr ()"
    by (simp add: createAuditLog_eq quota_no_invoice_audit_def newLog_def login_entry_def
        AuditLogInput.extend_def getAuditLogs_all_def loadFromStorage_def empty_storage_def)
  have q1: "quota_no_invoice_audit
      (setItem (JSON_roundtrip (INVOICES (inv0 # Invoices_getAll empty_storage None))) empty_storage)"
    by (simp add: quota_no_invoice_audit_def getAuditLogs_all_def loadFromStorage_def
        empty_storage_def)
  have r1: "fst (createAuditLog quota_no_invoice_audit
       \<lparr>userId = default_userId None, userEmail = ''system'', action = INVOICE_CREATED,
          entityType = Entity_invoice, entityId = Invoice.id inv0,
          details = ''Created invoice '' @ template (Invoice.invoiceNumber inv0)
                      @ '' for '' @ template (Invoice.partnerCode inv0),
          AuditLogInput.partnerCode = Invoice.partnerCode inv0\<rparr> rt0
       (setItem (JSON_roundtrip (INVOICES (inv0 # Invoices_getAll empty_storage None)))
          empty_storage)) \<noteq> Inr ()"
    by (simp add: createAuditLog_eq quota_no_invoice_audit_def newLog_def
        AuditLogInput.extend_def)
  note at_create = audit_failure_propagates [where quota = quota_no_invoice_audit
      and invoice = inv0 and st = empty_storage and rt = rt0 and x = "''i2''" and k = 1
      and upd = settle and version = v6 and y = "''v3''" and gone = v3 and event = event0
      and campaign = campaign0 and u = None]
  note at_empty = audit_failure_propagates [where quota = quota_no_audit and invoice = inv0
      and st = empty_storage and rt = rt0 and x = "''i2''" and k = 1 and upd = settle
      and version = v6 and y = "''v3''" and gone = v3 and event = event0
      and campaign = campaign0 and u = None]
  note at_three = audit_failure_propagates [where quota = quota_no_audit and invoice = inv0
      and st = three_invoices and rt = rt0 and x = "''i2''" and k = 1 and upd = settle
      and version = v6 and y = "''v3''" and gone = v3 and event = event0
      and campaign = campaign0 and u = None]
  note at_five = audit_failure_propagates [where quota = quota_no_audit and invoice = inv0
      and st = five_versions and rt = rt0 and x = "''i2''" and k = 1 and upd = settle
      and version = v6 and y = "''v3''" and gone = v3 and event = event0
      and campaign = campaign0 and u = None]
  have c1: "Invoices_create quota_no_invoice_audit inv0 None rt0 empty_storage =
     (Inl (Error ''Storage quota exceeded or unavailable for hcp_audit_logs''),
      setItem (JSON_roundtrip (INVOICES (inv0 # Invoices_getAll empty_storage None))) empty_storage)"
    using at_create q1 r1 by blast
  have c2: "Invoices_update quota_no_audit ''i2'' settle None rt0 three_invoices =
     (Inl (Error ''Storage quota exceeded or unavailable for hcp_audit_logs''),
      setItem (JSON_roundtrip (INVOICES ((Invoices_getAll three_invoices None)
         [1 := merge (Invoices_getAll three_invoices None ! 1) settle]))) three_invoices)"
    using at_three idx q(1) [OF logs(2)] r by blast
  have c3: "DatasetVersions_save quota_no_audit v6 None rt0 five_versions =
     (Inl (Error ''Storage quota exceeded or unavailable for hcp_audit_logs''),
      setItem (JSON_roundtrip (VERSIONS (if length (v6 # DatasetVersions_getAll five_versions) > 5
              then butlast (v6 # DatasetVersions_getAll five_versions)
              else v6 # DatasetVersions_getAll five_versions))) five_versions)"
    using at_five q(2) [OF logs(3)] r by blast
  have c4: "DatasetVersions_delete quota_no_audit ''v3'' None rt0 five_versions =
     (Inl (Error ''Storage quota exceeded or unavailable for hcp_audit_logs''),
      setItem (JSON_roundtrip (VERSIONS (filter (\<lambda>v. DatasetVersion.id v \<noteq> ''v3'')
         (DatasetVersions_getAll five_versions)))) five_versions)"
    using at_five byid q(2) [OF logs(3)] r by blast
  have c5: "Events_create quota_no_audit event0 None rt0 empty_storage =
     (Inl (Error ''Storage quota exceeded or unavailable for hcp_audit_logs''),
      setItem (JSON_roundtrip (EVENTS (Events_getAll empty_storage None @ [event0]))) empty_storage)"
    using at_empty q(3) [OF logs(1)] r by blast
  have c6: "logCampaign quota_no_audit campaign0 None rt0 empty_storage =
     (Inl (Error ''Storage quota exceeded or unavailable for hcp_audit_logs''),
      setItem (JSON_roundtrip (CAMPAIGNS (campaign0 # Campaigns_getAll empty_storage))) empty_storage)"
    using at_empty q(4) [OF logs(1)] r by blast
  show ?thesis
    unfolding c1 c2 c3 c4 c5 c6 all del JSON_roundtrip.simps merged
    by (simp add: taken j0 je)
qed

text \<open>
  C3 as stated fails: with room for one stored element, the invoice write is accepted,
  the audit write is not, and \<^verbatim>\<open>Invoices.create\<close> raises.
\<close>

theorem audit_failure_counterexample:
  "quota_one (setItem (INVOICES [inv0]) empty_storage) \<and>
   Invoices_create quota_one inv0 None rt0 empty_storage =
     (Inl (Error ''Storage quota exceeded or unavailable for hcp_audit_logs''),
      empty_storage\<lparr>hcp_invoices := Some [inv0]\<rparr>)"
proof -
  have j0: "JSON_Invoice inv0 = inv0"
    by (rule JSON_three)
  show ?thesis
    by (simp add: Invoices_create_eq createAuditLog_eq quota_one_def loadFromStorage_def
        getAuditLogs_all_def Invoices_getAll_None empty_storage_def j0)
qed

section \<open>The gateway\<close>

lemma authenticated_handler: "authenticated p ev \<Longrightarrow> handler p ev = dispatch p ev"
  by (auto simp: authenticated_def handler_def split: option.splits)

lemma statusCode_respond [simp]: "statusCode (respond c m) = c"
  by (simp add: respond_def)




lemma handler_without_secret:
  "authHeader ev = Some (''Bearer '' @ token) \<Longrightarrow> JWT_SECRET p = None \<or> JWT_SECRET p = Some [] \<Longrightarrow>
     handler p ev = (respond 500 ''Internal server error'', [])"
  by (auto simp: handler_def)



lemma start_chars_word: "c \<in> set start_chars \<Longrightarrow> c \<in> set word_chars"
  by (auto simp: start_chars_def word_chars_def)

lemma isValidColumnName_chars: "isValidColumnName k \<Longrightarrow> c \<in> set k \<Longrightarrow> c \<in> set word_chars"
  by (cases k) (auto simp: isValidColumnName_def list_all_iff dest: start_chars_word)

lemma Raises_truthy: "property_name t = Raises \<Longrightarrow> truthy t"
  by (cases t) (simp_all split: if_splits)

lemma entityTableMap_get_Inl: "(\<exists>e. entityTableMap_get t = Inl e) = (property_name t = Raises)"
  by (simp add: entityTableMap_get_def split: converted.splits option.splits)

lemma handle_POST_bad_column:
  assumes "HandlerEvent.body ev = Json (JObj kvs)"
    and "map_of kvs ''data'' = Some (JObj cols)"
    and "\<not> list_all isValidColumnName (map fst cols)"
  shows "snd (handle_POST p ev) = [] \<and>
         statusCode (fst (handle_POST p ev)) =
           (case map_of kvs ''type'' of
              None \<Rightarrow> 400
            | Some t \<Rightarrow> if property_name t = Raises then 500 else 400)"
proof (cases "map_of kvs ''type''")
  case None
  with assms show ?thesis by (simp add: handle_POST_def)
next
  case (Some t)
  show ?thesis
  proof (cases "property_name t = Raises")
    case True
    then obtain e where "entityTableMap_get t = Inl e"
      using entityTableMap_get_Inl [of t] by blast
    with assms Some True Raises_truthy [OF True] show ?thesis
      by (simp add: handle_POST_def)
  next
    case False
    then have "\<exists>r. entityTableMap_get t = Inr r"
      using entityTableMap_get_Inl [of t] by (cases "entityTableMap_get t") auto
    then obtain r where "entityTableMap_get t = Inr r" ..
    with assms Some False show ?thesis
      by (simp add: handle_POST_def Let_def split: option.splits)
  qed
qed

text \<open>
  C8, as amended. An authenticated \<^verbatim>\<open>POST\<close> whose \<^verbatim>\<open>data\<close> object has a field
  name with a character outside \<^verbatim>\<open>[a-zA-Z0-9_]\<close> sends no query. It is answered
  400, except when the body's \<^verbatim>\<open>type\<close> member cannot be turned into a property
  name (an object with an own \<^verbatim>\<open>toString\<close> member, or an array that holds one):
  the read of \<^verbatim>\<open>entityTableMap\<close> then raises ahead of the field name check and the
  answer is 500.
\<close>

theorem bad_column_rejected:
  assumes "authenticated p ev" and "httpMethod ev = ''POST''"
    and "HandlerEvent.body ev = Json (JObj kvs)"
    and "map_of kvs ''data'' = Some (JObj cols)"
    and "(k, v) \<in> set cols" and "c \<in> set k" and "c \<notin> set word_chars"
  shows "snd (handler p ev) = [] \<and>
         statusCode (fst (handler p ev)) =
           (case map_of kvs ''type'' of
              None \<Rightarrow> 400
            | Some t \<Rightarrow> if property_name t = Raises then 500 else 400)"
proof -
  from assms(6,7) have "\<not> isValidColumnName k"
    using isValidColumnName_chars by blast
  with assms(5) have "\<not> list_all isValidColumnName (map fst cols)"
    by (force simp: list_all_iff)
  from handle_POST_bad_column [OF assms(3,4) this, of p] show ?thesis
    by (simp add: authenticated_handler [OF assms(1)] dispatch_def assms(2))
qed

theorem bad_column_rejected_witness:
  "authenticated platform0 bad_col_request \<and>
   handler platform0 bad_col_request = (respond 400 ''Invalid column name in data'', []) \<and>
   snd (handler platform0 bad_col_request) = [] \<and>
   statusCode (fst (handler platform0 bad_col_request)) = 400"
proof -
  have a: "authenticated platform0 bad_col_request"
    by (simp add: bad_col_request_def authenticated_def authHeader_def truthy_string_def
        platform0_def request0_def)
  have m: "httpMethod bad_col_request = ''POST''"
    by (simp add: bad_col_request_def request0_def)
  have b: "HandlerEvent.body bad_col_request = Json (JObj [(''type'', JStr ''invoices''),
       (''data'', JObj [(''id'', JStr ''i1''), (''bad col'', JStr ''x'')])])"
    by (simp add: bad_col_request_def)
  have d: "map_of [(''type'', JStr ''invoices''),
       (''data'', JObj [(''id'', JStr ''i1''), (''bad col'', JStr ''x'')])] ''data'' =
       Some (JObj [(''id'', JStr ''i1''), (''bad col'', JStr ''x'')])"
    by simp
  have k: "(''bad col'', JStr ''x'') \<in> set [(''id'', JStr ''i1''), (''bad col'', JStr ''x'')]"
    "CHR '' '' \<in> set ''bad col''" "CHR '' '' \<notin> set word_chars"
    by (simp_all add: word_chars_def)
  have r: "handler platform0 bad_col_request = (respond 400 ''Invalid column name in data'', [])"
    unfolding authenticated_handler [OF a]
    by (simp add: dispatch_def m handle_POST_def b Let_def
        entityTableMap_get_def entityTableMap_def isValidColumnName_def start_chars_def
        word_chars_def)
  from bad_column_rejected [OF a m b d k] a r show ?thesis by simp
qed

text \<open>
  C8 as stated fails on the status: with \<^verbatim>\<open>{"toString": 0}\<close> as the body's
  \<^verbatim>\<open>type\<close> and the field name \<^verbatim>\<open>bad col\<close> in its \<^verbatim>\<open>data\<close>, the authenticated
  \<^verbatim>\<open>POST\<close> is answered 500.
\<close>

theorem bad_column_500_counterexample:
  "authenticated platform0 odd_type_request \<and>
   httpMethod odd_type_request = ''POST'' \<and>
   HandlerEvent.body odd_type_request =
     Json (JObj [(''type'', JObj [(''toString'', JNum 0)]),
                 (''data'', JObj [(''bad col'', JStr ''x'')])]) \<and>
   handler platform0 odd_type_request = (respond 500 ''Internal server error'', [])"
proof -
  have a: "authenticated platform0 odd_type_request"
    by (simp add: odd_type_request_def authenticated_def authHeader_def truthy_string_def
        platform0_def request0_def)
  have r: "handler platform0 odd_type_request = (respond 500 ''Internal server error'', [])"
    unfolding authenticated_handler [OF a]
    by (simp add: dispatch_def handle_POST_def odd_type_request_def request0_def
        entityTableMap_get_def)
  from a r show ?thesis
    by (simp add: odd_type_request_def request0_def)
qed







end
